theory Spec2Isabelle
  imports Complex_Main "HOL-Library.Sublist"
begin

section \<open>JavaScript strings\<close>

text \<open>
  A JavaScript string is a sequence of UTF-16 code units; \<open>length\<close>, \<open>includes\<close>,
  \<open>startsWith\<close>, \<open>slice\<close> and \<open>split\<close> all work on code units. A HOL \<open>string\<close> is a
  list of 8-bit characters, so one \<open>char\<close> stands for one code unit and the model covers
  the strings whose code units are below 256.
\<close>

text \<open>\<open>s.startsWith(p)\<close>\<close>

fun startsWith :: "string \<Rightarrow> string \<Rightarrow> bool" where
  "startsWith s [] = True"
| "startsWith [] (p # ps) = False"
| "startsWith (c # cs) (p # ps) = (c = p \<and> startsWith cs ps)"

text \<open>\<open>s.includes(sub)\<close>: \<open>sub\<close> occurs at some position of \<open>s\<close>.\<close>

fun str_includes :: "string \<Rightarrow> string \<Rightarrow> bool" where
  "str_includes [] sub = (sub = [])"
| "str_includes (c # cs) sub = (startsWith (c # cs) sub \<or> str_includes cs sub)"

text \<open>\<open>xs.join(sep)\<close> on an array of strings.\<close>

fun join :: "string \<Rightarrow> string list \<Rightarrow> string" where
  "join sep [] = []"
| "join sep [x] = x"
| "join sep (x # y # ys) = x @ sep @ join sep (y # ys)"

text \<open>
  \<open>s.toLowerCase()\<close>. Among the code units below 256 the upper-case letters are
  \<open>A\<close> to \<open>Z\<close> (65 to 90) and the Latin-1 capitals 192 to 222 without the multiplication
  sign 215; each is 32 below its lower-case letter.
\<close>

definition toLowerCaseUnit :: "char \<Rightarrow> char" where
  "toLowerCaseUnit c =
     (let n = (of_char c :: nat)
      in if (65 \<le> n \<and> n \<le> 90) \<or> (192 \<le> n \<and> n \<le> 222 \<and> n \<noteq> 215)
         then char_of (n + 32) else c)"

definition toLowerCase :: "string \<Rightarrow> string" where
  "toLowerCase s = map toLowerCaseUnit s"

text \<open>
  \<open>s.trim()\<close> removes white space and line terminators at both ends: below 256 these
  are the code units 9 to 13, 32 and 160.
\<close>

definition is_white_space :: "char \<Rightarrow> bool" where
  "is_white_space c =
     (let n = (of_char c :: nat) in (9 \<le> n \<and> n \<le> 13) \<or> n = 32 \<or> n = 160)"

definition trim :: "string \<Rightarrow> string" where
  "trim s = rev (dropWhile is_white_space (rev (dropWhile is_white_space s)))"

text \<open>
  \<open>s.split('\n')\<close>: the segments between line feeds; never empty (the empty string
  gives one empty segment).
\<close>

fun split_nl :: "string \<Rightarrow> string list" where
  "split_nl [] = [[]]"
| "split_nl (c # cs) =
     (if c = CHR 0x0A then [] # split_nl cs
      else (case split_nl cs of [] \<Rightarrow> [[c]] | l # ls \<Rightarrow> (c # l) # ls))"

text \<open>
  \<open>Math.ceil(n / 4)\<close> for a character count \<open>n\<close>. The division by four is exact in
  double precision for every count a string length can reach.
\<close>

definition ceil_quarter :: "nat \<Rightarrow> nat" where
  "ceil_quarter n = (n + 3) div 4"

section \<open>Values shared by the adapters\<close>

text \<open>An exception thrown by the code, with its message.\<close>

datatype js_error = Error string | TypeError string

text \<open>A value parsed from JSON text (numbers restricted to integers).\<close>

datatype json = JNull | JBool bool | JNumber int | JString string
  | JArray "json list" | JObject "(string \<times> json) list"

text \<open>
  The types of \<open>@google/genai\<close> the adapters work on. A \<open>Part\<close> is an object with optional
  fields; \<open>None\<close> is an absent field. \<open>ContentListUnion\<close> is
  \<open>Content | Content[] | PartUnion | PartUnion[]\<close> with \<open>PartUnion = Part | string\<close>, the four
  shapes \<open>HunyuanContentGenerator.convertToOpenAIMessages\<close> tells apart.
\<close>

record Part =
  part_text :: "string option"
  part_inlineData :: "(string \<times> string) option"
  part_functionCall :: "(string \<times> json) option"
  part_functionResponse :: "(string \<times> json) option"

definition text_part :: "string \<Rightarrow> Part" where
  "text_part s = \<lparr>part_text = Some s, part_inlineData = None,
                  part_functionCall = None, part_functionResponse = None\<rparr>"

definition functionCall_part :: "string \<Rightarrow> json \<Rightarrow> Part" where
  "functionCall_part name args = \<lparr>part_text = None, part_inlineData = None,
                  part_functionCall = Some (name, args), part_functionResponse = None\<rparr>"

datatype PartUnion = PartString string | PartObject Part

record Content =
  content_role :: "string option"
  content_parts :: "Part list option"

datatype ContentListUnion =
    OneContent Content
  | ContentArray "Content list"
  | OnePart PartUnion
  | PartArray "PartUnion list"

datatype FinishReason = STOP | MAX_TOKENS | SAFETY | RECITATION | OTHER

text \<open>Token usage, as the provider reports it and as the unified response carries it.\<close>

record Usage =
  prompt_tokens :: int
  completion_tokens :: int
  total_tokens :: int

record UsageMetadata =
  promptTokenCount :: int
  candidatesTokenCount :: int
  totalTokenCount :: int

text \<open>
  One chunk of an OpenAI-compatible streaming response, after \<open>JSON.parse\<close>: the fields
  the adapters read (\<open>KimiStreamChunk\<close>, \<open>DeepSeekStreamChunk\<close> and the OpenAI client's
  chunk declare the same wire format).
\<close>

record ToolCallFunction =
  fn_name :: "string option"
  fn_arguments :: "string option"

record ToolCallDelta =
  tool_index :: nat
  tool_id :: "string option"
  tool_function :: "ToolCallFunction option"

record Delta =
  delta_role :: "string option"
  delta_content :: "string option"
  delta_tool_calls :: "ToolCallDelta list option"

record StreamChoice =
  choice_delta :: Delta
  choice_finish_reason :: "string option"

record StreamChunk =
  chunk_model :: string
  chunk_choices :: "StreamChoice list"
  chunk_usage :: "Usage option"

text \<open>\<open>chunk.choices[0]\<close>, \<open>undefined\<close> on an empty array.\<close>

definition first_choice :: "StreamChunk \<Rightarrow> StreamChoice option" where
  "first_choice chunk = (case chunk_choices chunk of [] \<Rightarrow> None | c # _ \<Rightarrow> Some c)"

text \<open>A string-valued field that is present and not empty (a truthy string).\<close>

fun truthy :: "string option \<Rightarrow> bool" where
  "truthy None = False"
| "truthy (Some s) = (s \<noteq> [])"

text \<open>
  The response of an HTTP request, as the streaming methods read it: \<open>http_body\<close> is
  \<open>None\<close> for a null body and otherwise the decoded chunks the reader delivers before
  it reports the end.
\<close>

record HttpResponse =
  http_ok :: bool
  http_status :: string
  http_statusText :: string
  http_errorText :: string
  http_body :: "string list option"

text \<open>
  The state of the process that is not an adapter's own: the dispatcher every outbound
  request of the process is routed through (undici's global dispatcher) and the
  requests sent so far.
\<close>

datatype dispatcher = DefaultDispatcher | ProxyAgent string

record process_state =
  globalDispatcher :: dispatcher
  requests_sent :: "string list"

section \<open>Model names and the effective model (packages/core/src/config/models.ts)\<close>

definition DEFAULT_GEMINI_MODEL :: string where
  "DEFAULT_GEMINI_MODEL = ''gemini-2.5-pro''"

definition DEFAULT_GEMINI_FLASH_MODEL :: string where
  "DEFAULT_GEMINI_FLASH_MODEL = ''gemini-2.5-flash''"

definition DEFAULT_GEMINI_FLASH_LITE_MODEL :: string where
  "DEFAULT_GEMINI_FLASH_LITE_MODEL = ''gemini-2.5-flash-lite''"

definition DEFAULT_HUNYUAN_MODEL :: string where
  "DEFAULT_HUNYUAN_MODEL = ''hunyuan-pro''"

definition DEFAULT_HUNYUAN_STANDARD_MODEL :: string where
  "DEFAULT_HUNYUAN_STANDARD_MODEL = ''hunyuan-standard''"

definition DEFAULT_HUNYUAN_LITE_MODEL :: string where
  "DEFAULT_HUNYUAN_LITE_MODEL = ''hunyuan-lite''"

text \<open>
  \<open>getEffectiveModel(isInFallbackMode, requestedModel)\<close>: the three tests of the source,
  in the source's order.
\<close>

definition getEffectiveModel :: "bool \<Rightarrow> string \<Rightarrow> string" where
  "getEffectiveModel isInFallbackMode requestedModel =
     (if \<not> isInFallbackMode then requestedModel
      else if str_includes requestedModel ''lite'' then requestedModel
      else if str_includes requestedModel ''hunyuan'' then DEFAULT_HUNYUAN_STANDARD_MODEL
      else DEFAULT_GEMINI_FLASH_MODEL)"

section \<open>Requests, responses and messages of the adapters\<close>

text \<open>\<open>x || ''\<close> on an optional string\<close>

fun string_or_empty :: "string option \<Rightarrow> string" where
  "string_or_empty None = []"
| "string_or_empty (Some s) = s"


text \<open>
  A unified response with one text part, as the Kimi and the Hunyuan adapter emit it.
  The model version is a \<open>js_member\<close> because the Kimi client fills it from
  \<open>mapModelToKimi\<close>.
\<close>

datatype js_member = Str string | ObjectPrototypeMember string

record StreamResponse =
  response_text :: string
  response_finishReason :: "string option"
  response_usageMetadata :: "UsageMetadata option"
  response_modelVersion :: js_member

text \<open>A request to \<open>countTokens\<close>; \<open>None\<close> is an absent \<open>contents\<close>.\<close>

record CountTokensParameters =
  count_model :: string
  count_contents :: "ContentListUnion option"

text \<open>
  \<open>for (const content of contents)\<close>: an array gives its elements, a string its
  characters, and an object that is not iterable raises a \<open>TypeError\<close>.
\<close>

datatype iterated = ItContent Content | ItPart PartUnion | ItChar char

fun iterate_contents :: "ContentListUnion option \<Rightarrow> js_error + iterated list" where
  "iterate_contents None = Inr []"
| "iterate_contents (Some (ContentArray cs)) = Inr (map ItContent cs)"
| "iterate_contents (Some (PartArray ps)) = Inr (map ItPart ps)"
| "iterate_contents (Some (OnePart (PartString s))) = Inr (map ItChar s)"
| "iterate_contents (Some (OnePart (PartObject p))) = Inl (TypeError ''contents is not iterable'')"
| "iterate_contents (Some (OneContent c)) = Inl (TypeError ''contents is not iterable'')"

text \<open>\<open>content.parts\<close>: only a \<open>Content\<close> has the field.\<close>

fun iterated_parts :: "iterated \<Rightarrow> Part list option" where
  "iterated_parts (ItContent c) = content_parts c"
| "iterated_parts (ItPart p) = None"
| "iterated_parts (ItChar c) = None"

text \<open>\<open>xs || []\<close> on an optional array\<close>

fun list_or_empty :: "'a list option \<Rightarrow> 'a list" where
  "list_or_empty None = []"
| "list_or_empty (Some xs) = xs"

section \<open>The Kimi client (packages/core/src/core/kimiClient.ts)\<close>

definition KIMI_API_BASE_URL :: string where
  "KIMI_API_BASE_URL = ''https://api.moonshot.cn/v1''"


text \<open>\<open>part.text || ''\<close>\<close>

definition text_or_empty :: "Part \<Rightarrow> string" where
  "text_or_empty part = string_or_empty (part_text part)"





record KimiClient =
  kimi_apiKey :: string
  kimi_baseUrl :: string
  kimi_httpOptions :: "(string \<times> string) list option"

text \<open>
  The constructor: \<open>None\<close> is an absent key. It returns the instance or the error, and
  the state of the process after it.
\<close>

definition KimiClient_constructor ::
    "string option \<Rightarrow> (string \<times> string) list option \<Rightarrow> process_state
      \<Rightarrow> (js_error + KimiClient) \<times> process_state" where
  "KimiClient_constructor apiKey httpOptions proc =
     (if \<not> truthy apiKey then (Inl (Error ''KIMI_API_KEY is required''), proc)
      else (Inr \<lparr>kimi_apiKey = string_or_empty apiKey, kimi_baseUrl = KIMI_API_BASE_URL,
                 kimi_httpOptions = httpOptions\<rparr>, proc))"

text \<open>
  \<open>modelMap[key]\<close> reads a plain object: a key that is not its own is looked up in
  \<open>Object.prototype\<close>, whose members are functions and objects, not strings.
\<close>

definition Object_prototype_names :: "string list" where
  "Object_prototype_names =
     [''constructor'', ''__defineGetter__'', ''__defineSetter__'', ''hasOwnProperty'',
      ''__lookupGetter__'', ''__lookupSetter__'', ''isPrototypeOf'', ''propertyIsEnumerable'',
      ''toString'', ''valueOf'', ''__proto__'', ''toLocaleString'']"

definition object_get :: "(string \<times> string) list \<Rightarrow> string \<Rightarrow> js_member option" where
  "object_get obj key =
     (case map_of obj key of
        Some v \<Rightarrow> Some (Str v)
      | None \<Rightarrow>
          if key \<in> set Object_prototype_names then Some (ObjectPrototypeMember key) else None)"

definition modelMap :: "(string \<times> string) list" where
  "modelMap =
     [(''kimi-1'', ''moonshot-v1-8k''),
      (''kimi-2'', ''moonshot-v1-32k''),
      (''kimi-3'', ''moonshot-v1-128k''),
      (''kimi-pro'', ''moonshot-v1-8k''),
      (''kimi-plus'', ''moonshot-v1-32k''),
      (''kimi-max'', ''moonshot-v1-128k''),
      (''moonshot-v1-8k'', ''moonshot-v1-8k''),
      (''moonshot-v1-32k'', ''moonshot-v1-32k''),
      (''moonshot-v1-128k'', ''moonshot-v1-128k'')]"

definition mapModelToKimi :: "string \<Rightarrow> js_member" where
  "mapModelToKimi model =
     (let lowerModel = toLowerCase model;
          other = (if startsWith lowerModel ''kimi-'' \<or> startsWith lowerModel ''moonshot-''
                   then Str model else Str ''moonshot-v1-32k'')
      in case object_get modelMap (toLowerCase model) of
           None \<Rightarrow> other
         | Some (Str v) \<Rightarrow> if v \<noteq> [] then Str v else other
         | Some (ObjectPrototypeMember n) \<Rightarrow> ObjectPrototypeMember n)"

text \<open>The variables of the streaming loop.\<close>

record KimiStreamVars =
  kimi_accumulatedContent :: string
  kimi_usageMetadata :: "UsageMetadata option"

text \<open>The body of the \<open>try\<close> block once \<open>JSON.parse\<close> has returned \<open>chunk\<close>.\<close>

definition kimi_process_chunk ::
    "StreamChunk \<Rightarrow> KimiStreamVars \<Rightarrow> StreamResponse list \<times> KimiStreamVars" where
  "kimi_process_chunk chunk vars =
     (let choice = first_choice chunk;
          content = (case choice of None \<Rightarrow> None | Some c \<Rightarrow> delta_content (choice_delta c));
          finish_reason = (case choice of None \<Rightarrow> None | Some c \<Rightarrow> choice_finish_reason c);
          accumulatedContent =
            (if truthy content then kimi_accumulatedContent vars @ string_or_empty content
             else kimi_accumulatedContent vars);
          yielded =
            (if truthy content
             then [\<lparr>response_text = accumulatedContent, response_finishReason = finish_reason,
                    response_usageMetadata = None,
                    response_modelVersion = Str (chunk_model chunk)\<rparr>]
             else []);
          usageMetadata =
            (if truthy finish_reason
             then Some \<lparr>promptTokenCount = 0,
                        candidatesTokenCount = int (length accumulatedContent div 4),
                        totalTokenCount = int (length accumulatedContent div 4)\<rparr>
             else kimi_usageMetadata vars)
      in (yielded, \<lparr>kimi_accumulatedContent = accumulatedContent,
                     kimi_usageMetadata = usageMetadata\<rparr>))"

text \<open>
  One line of the buffer. \<open>JSON_parse\<close> is the platform's \<open>JSON.parse\<close> read at the
  chunk type: \<open>None\<close> when it throws, and also when its value has no \<open>choices\<close> to index
  (then \<open>chunk.choices[0]\<close> throws in the same \<open>try\<close> block, before anything is written).
\<close>

definition kimi_process_line ::
    "(string \<Rightarrow> StreamChunk option) \<Rightarrow> string \<Rightarrow> KimiStreamVars
      \<Rightarrow> StreamResponse list \<times> KimiStreamVars" where
  "kimi_process_line JSON_parse line vars =
     (if trim line = [] then ([], vars)
      else if startsWith line ''data: '' then
        (let data = drop 6 line
         in if data = ''[DONE]'' then ([], vars)
            else (case JSON_parse data of
                    None \<Rightarrow> ([], vars)
                  | Some chunk \<Rightarrow> kimi_process_chunk chunk vars))
      else ([], vars))"

fun kimi_process_lines ::
    "(string \<Rightarrow> StreamChunk option) \<Rightarrow> string list \<Rightarrow> KimiStreamVars
      \<Rightarrow> StreamResponse list \<times> KimiStreamVars" where
  "kimi_process_lines JSON_parse [] vars = ([], vars)"
| "kimi_process_lines JSON_parse (line # lines) vars =
     (case kimi_process_line JSON_parse line vars of
        (yielded, vars1) \<Rightarrow>
          (case kimi_process_lines JSON_parse lines vars1 of
             (later, vars2) \<Rightarrow> (yielded @ later, vars2)))"

text \<open>
  The \<open>while (true)\<close> loop over the reads of the body: each read extends the buffer, the
  complete lines are processed and the last segment stays in the buffer.
\<close>

fun kimi_read_loop ::
    "(string \<Rightarrow> StreamChunk option) \<Rightarrow> string list \<Rightarrow> string \<Rightarrow> KimiStreamVars
      \<Rightarrow> StreamResponse list \<times> string \<times> KimiStreamVars" where
  "kimi_read_loop JSON_parse [] buffer vars = ([], buffer, vars)"
| "kimi_read_loop JSON_parse (v # reads) buffer vars =
     (let lines = split_nl (buffer @ v)
      in case kimi_process_lines JSON_parse (butlast lines) vars of
           (yielded, vars1) \<Rightarrow>
             (case kimi_read_loop JSON_parse reads (last lines) vars1 of
                (later, buffer2, vars2) \<Rightarrow> (yielded @ later, buffer2, vars2)))"

text \<open>
  \<open>generateContentStream\<close> from the response of the request on: the responses the
  generator yields, or the error it throws before the first one.
\<close>

definition KimiClient_generateContentStream ::
    "(string \<Rightarrow> StreamChunk option) \<Rightarrow> string \<Rightarrow> HttpResponse
      \<Rightarrow> js_error + StreamResponse list" where
  "KimiClient_generateContentStream JSON_parse model response =
     (let kimiModel = mapModelToKimi model
      in if \<not> http_ok response then
           Inl (Error (''Kimi API error: '' @ http_status response @ '' ''
                        @ http_statusText response @ '' - '' @ http_errorText response))
         else (case http_body response of
                 None \<Rightarrow> Inl (Error ''No response body'')
               | Some reads \<Rightarrow>
                   (case kimi_read_loop JSON_parse reads []
                           \<lparr>kimi_accumulatedContent = [], kimi_usageMetadata = None\<rparr> of
                      (yielded, buffer, vars) \<Rightarrow>
                        Inr (yielded @
                             (if kimi_accumulatedContent vars \<noteq> []
                              then [\<lparr>response_text = kimi_accumulatedContent vars,
                                     response_finishReason = Some ''STOP'',
                                     response_usageMetadata = kimi_usageMetadata vars,
                                     response_modelVersion = kimiModel\<rparr>]
                              else [])))))"

definition KimiClient_countTokens :: "CountTokensParameters \<Rightarrow> js_error + nat" where
  "KimiClient_countTokens request =
     (case iterate_contents (count_contents request) of
        Inl e \<Rightarrow> Inl e
      | Inr contents \<Rightarrow>
          Inr (ceil_quarter
                (foldl (\<lambda>totalChars content.
                          totalChars
                          + length (join [] (map text_or_empty
                                      (list_or_empty (iterated_parts content)))))
                   0 contents)))"

section \<open>The Hunyuan generator (packages/core/src/core/hunyuanContentGenerator.ts)\<close>

text \<open>
  The constructor hands the key to the constructor of the OpenAI client, a library
  outside the repository: \<open>OpenAI_new\<close> stands for it.
\<close>

record OpenAIOptions =
  openai_apiKey :: "string option"
  openai_baseURL :: string

record 'c HunyuanContentGenerator =
  hunyuan_client :: 'c

definition HunyuanContentGenerator_constructor ::
    "(OpenAIOptions \<Rightarrow> process_state \<Rightarrow> (js_error + 'c) \<times> process_state)
      \<Rightarrow> string option \<Rightarrow> string option \<Rightarrow> process_state
      \<Rightarrow> (js_error + 'c HunyuanContentGenerator) \<times> process_state" where
  "HunyuanContentGenerator_constructor OpenAI_new apiKey baseURL proc =
     (case OpenAI_new
             \<lparr>openai_apiKey = apiKey,
              openai_baseURL = (if truthy baseURL then string_or_empty baseURL
                                else ''https://api.hunyuan.cloud.tencent.com/v1'')\<rparr> proc of
        (Inl e, proc1) \<Rightarrow> (Inl e, proc1)
      | (Inr client, proc1) \<Rightarrow> (Inr \<lparr>hunyuan_client = client\<rparr>, proc1))"

definition createGenerateContentResponse ::
    "string \<Rightarrow> UsageMetadata \<Rightarrow> string \<Rightarrow> StreamResponse" where
  "createGenerateContentResponse txt usageMetadata modelVersion =
     \<lparr>response_text = txt, response_finishReason = None,
      response_usageMetadata = Some usageMetadata,
      response_modelVersion = Str modelVersion\<rparr>"

record HunyuanStreamVars =
  hunyuan_accumulatedText :: string
  hunyuan_totalTokens :: int
  hunyuan_promptTokens :: int
  hunyuan_candidatesTokenCount :: int

text \<open>The body of \<open>for await (const chunk of stream)\<close>: one response for every chunk.\<close>

definition hunyuan_process_chunk ::
    "string \<Rightarrow> StreamChunk \<Rightarrow> HunyuanStreamVars \<Rightarrow> StreamResponse \<times> HunyuanStreamVars" where
  "hunyuan_process_chunk model chunk vars =
     (let content = (case first_choice chunk of
                       None \<Rightarrow> None | Some c \<Rightarrow> delta_content (choice_delta c));
          accumulatedText =
            (if truthy content then hunyuan_accumulatedText vars @ string_or_empty content
             else hunyuan_accumulatedText vars);
          candidatesTokens =
            (if truthy content then hunyuan_candidatesTokenCount vars + 1
             else hunyuan_candidatesTokenCount vars);
          totalTokens = (case chunk_usage chunk of
                           Some u \<Rightarrow> total_tokens u | None \<Rightarrow> hunyuan_totalTokens vars);
          promptTokens = (case chunk_usage chunk of
                            Some u \<Rightarrow> prompt_tokens u | None \<Rightarrow> hunyuan_promptTokens vars);
          usageMetadata =
            \<lparr>promptTokenCount = promptTokens, candidatesTokenCount = candidatesTokens,
             totalTokenCount = (if totalTokens \<noteq> 0 then totalTokens
                                else promptTokens + candidatesTokens)\<rparr>
      in (createGenerateContentResponse accumulatedText usageMetadata model,
          \<lparr>hunyuan_accumulatedText = accumulatedText, hunyuan_totalTokens = totalTokens,
           hunyuan_promptTokens = promptTokens,
           hunyuan_candidatesTokenCount = candidatesTokens\<rparr>))"

fun hunyuan_stream_loop ::
    "string \<Rightarrow> StreamChunk list \<Rightarrow> HunyuanStreamVars \<Rightarrow> StreamResponse list" where
  "hunyuan_stream_loop model [] vars = []"
| "hunyuan_stream_loop model (chunk # chunks) vars =
     (case hunyuan_process_chunk model chunk vars of
        (response, vars1) \<Rightarrow> response # hunyuan_stream_loop model chunks vars1)"

text \<open>\<open>streamGenerator\<close> on the chunks the OpenAI client's stream delivers.\<close>

definition HunyuanContentGenerator_streamGenerator ::
    "string \<Rightarrow> StreamChunk list \<Rightarrow> StreamResponse list" where
  "HunyuanContentGenerator_streamGenerator model chunks =
     hunyuan_stream_loop model chunks
       \<lparr>hunyuan_accumulatedText = [], hunyuan_totalTokens = 0,
        hunyuan_promptTokens = 0, hunyuan_candidatesTokenCount = 0\<rparr>"









section \<open>The DeepSeek generators (src/unnamed/part\_002 and src/unnamed/part\_003)\<close>

text \<open>\<open>convertFinishReason\<close> of the generator in part\_002.\<close>

definition convertFinishReason :: "string \<Rightarrow> FinishReason" where
  "convertFinishReason reason =
     (if reason = ''stop'' then STOP
      else if reason = ''length'' then MAX_TOKENS
      else if reason = ''content_filter'' then SAFETY
      else OTHER)"

text \<open>The rest of the section is the generator in part\_003.\<close>

definition DEEPSEEK_API_BASE_URL :: string where
  "DEEPSEEK_API_BASE_URL = ''https://api.deepseek.com''"

record ToolCall =
  toolcall_id :: string
  toolcall_name :: string
  toolcall_arguments :: string

record ResponseMessage =
  rmessage_role :: string
  rmessage_content :: "string option"
  rmessage_tool_calls :: "ToolCall list option"

record ResponseChoice =
  rchoice_message :: ResponseMessage
  rchoice_finish_reason :: string

record DeepSeekChatCompletionResponse =
  completion_model :: string
  completion_choices :: "ResponseChoice list"
  completion_usage :: Usage

record Candidate =
  candidate_parts :: "Part list"
  candidate_finishReason :: "FinishReason option"

record DeepSeekGeminiResponse =
  gemini_candidates :: "Candidate list"
  gemini_usageMetadata :: "UsageMetadata option"
  gemini_modelVersion :: string

definition usage_metadata :: "Usage \<Rightarrow> UsageMetadata" where
  "usage_metadata u = \<lparr>promptTokenCount = prompt_tokens u,
                       candidatesTokenCount = completion_tokens u,
                       totalTokenCount = total_tokens u\<rparr>"

text \<open>
  One tool call of a complete response: \<open>JSON_parse\<close> is \<open>JSON.parse\<close> on the arguments,
  \<open>None\<close> when it throws.
\<close>

definition response_toolcall_part :: "(string \<Rightarrow> json option) \<Rightarrow> ToolCall \<Rightarrow> Part" where
  "response_toolcall_part JSON_parse toolCall =
     (case JSON_parse (toolcall_arguments toolCall) of
        Some args \<Rightarrow> functionCall_part (toolcall_name toolCall) args
      | None \<Rightarrow> text_part (''[Tool Call: '' @ toolcall_name toolCall @ ''(''
                             @ toolcall_arguments toolCall @ '')]''))"

definition convertDeepSeekResponseToGemini ::
    "(string \<Rightarrow> json option) \<Rightarrow> DeepSeekChatCompletionResponse \<Rightarrow> string
      \<Rightarrow> js_error + DeepSeekGeminiResponse" where
  "convertDeepSeekResponseToGemini JSON_parse deepseekResponse model =
     (case completion_choices deepseekResponse of
        [] \<Rightarrow> Inl (Error ''No choice in DeepSeek response'')
      | choice # _ \<Rightarrow>
          (let message = rchoice_message choice;
               parts = (if truthy (rmessage_content message)
                        then [text_part (string_or_empty (rmessage_content message))] else [])
                       @ map (response_toolcall_part JSON_parse)
                           (list_or_empty (rmessage_tool_calls message))
           in Inr \<lparr>gemini_candidates =
                      [\<lparr>candidate_parts = parts,
                        candidate_finishReason =
                          Some (if rchoice_finish_reason choice = ''stop'' then STOP else OTHER)\<rparr>],
                    gemini_usageMetadata = Some (usage_metadata (completion_usage deepseekResponse)),
                    gemini_modelVersion = model\<rparr>))"

text \<open>One tool call of a stream chunk: skipped when it has no function or its arguments do not parse.\<close>

definition chunk_toolcall_parts :: "(string \<Rightarrow> json option) \<Rightarrow> ToolCallDelta \<Rightarrow> Part list" where
  "chunk_toolcall_parts JSON_parse toolCall =
     (case tool_function toolCall of
        None \<Rightarrow> []
      | Some f \<Rightarrow>
          (case (if truthy (fn_arguments f) then JSON_parse (string_or_empty (fn_arguments f))
                 else Some (JObject [])) of
             None \<Rightarrow> []
           | Some args \<Rightarrow> [functionCall_part (string_or_empty (fn_name f)) args]))"

definition convertDeepSeekStreamChunkToGemini ::
    "(string \<Rightarrow> json option) \<Rightarrow> StreamChunk \<Rightarrow> string \<Rightarrow> DeepSeekGeminiResponse" where
  "convertDeepSeekStreamChunkToGemini JSON_parse chunk model =
     (case first_choice chunk of
        None \<Rightarrow> \<lparr>gemini_candidates = [], gemini_usageMetadata = None, gemini_modelVersion = model\<rparr>
      | Some choice \<Rightarrow>
          (let delta = choice_delta choice;
               parts = (if truthy (delta_content delta)
                        then [text_part (string_or_empty (delta_content delta))] else [])
                       @ concat (map (chunk_toolcall_parts JSON_parse)
                                   (list_or_empty (delta_tool_calls delta)))
           in \<lparr>gemini_candidates =
                  [\<lparr>candidate_parts = parts,
                    candidate_finishReason =
                      (if choice_finish_reason choice = Some ''stop'' then Some STOP else None)\<rparr>],
                gemini_usageMetadata = map_option usage_metadata (chunk_usage chunk),
                gemini_modelVersion = model\<rparr>))"

record DeepSeekContentGenerator =
  deepseek_apiKey :: "string option"
  deepseek_baseUrl :: string
  deepseek_proxy :: "string option"

text \<open>
  The constructor. \<open>ProxyAgent_new\<close> stands for undici's \<open>new ProxyAgent(proxy)\<close>, which
  may reject the proxy; \<open>setGlobalDispatcher\<close> replaces the dispatcher of the process.
\<close>

definition setGlobalDispatcher :: "dispatcher \<Rightarrow> process_state \<Rightarrow> process_state" where
  "setGlobalDispatcher agent proc = proc\<lparr>globalDispatcher := agent\<rparr>"

definition DeepSeekContentGenerator_constructor ::
    "(string \<Rightarrow> js_error + dispatcher) \<Rightarrow> string option \<Rightarrow> string option \<Rightarrow> string option
      \<Rightarrow> process_state \<Rightarrow> (js_error + DeepSeekContentGenerator) \<times> process_state" where
  "DeepSeekContentGenerator_constructor ProxyAgent_new apiKey baseUrl proxy proc =
     (let this = \<lparr>deepseek_apiKey = apiKey,
                  deepseek_baseUrl = (if truthy baseUrl then string_or_empty baseUrl
                                      else DEEPSEEK_API_BASE_URL),
                  deepseek_proxy = proxy\<rparr>
      in if truthy proxy then
           (case ProxyAgent_new (string_or_empty proxy) of
              Inl e \<Rightarrow> (Inl e, proc)
            | Inr proxyAgent \<Rightarrow> (Inr this, setGlobalDispatcher proxyAgent proc))
         else (Inr this, proc))"

text \<open>
  One line of the buffer in \<open>generateContentStream\<close>: \<open>parse_chunk\<close> is \<open>JSON.parse\<close> read
  at the chunk type, \<open>None\<close> when the \<open>try\<close> block throws.
\<close>

definition deepseek_process_line ::
    "(string \<Rightarrow> StreamChunk option) \<Rightarrow> (string \<Rightarrow> json option) \<Rightarrow> string \<Rightarrow> string
      \<Rightarrow> DeepSeekGeminiResponse list" where
  "deepseek_process_line parse_chunk JSON_parse model line =
     (let trimmed = trim line
      in if trimmed = [] \<or> trimmed = ''data: [DONE]'' then []
         else if startsWith trimmed ''data: '' then
           (case parse_chunk (drop 6 trimmed) of
              None \<Rightarrow> []
            | Some chunk \<Rightarrow> [convertDeepSeekStreamChunkToGemini JSON_parse chunk model])
         else [])"

fun deepseek_read_loop ::
    "(string \<Rightarrow> StreamChunk option) \<Rightarrow> (string \<Rightarrow> json option) \<Rightarrow> string \<Rightarrow> string list
      \<Rightarrow> string \<Rightarrow> DeepSeekGeminiResponse list \<times> string" where
  "deepseek_read_loop parse_chunk JSON_parse model [] buffer = ([], buffer)"
| "deepseek_read_loop parse_chunk JSON_parse model (v # reads) buffer =
     (let lines = split_nl (buffer @ v)
      in case deepseek_read_loop parse_chunk JSON_parse model reads (last lines) of
           (later, buffer2) \<Rightarrow>
             (concat (map (deepseek_process_line parse_chunk JSON_parse model) (butlast lines))
              @ later, buffer2))"

text \<open>\<open>// Process remaining buffer\<close>\<close>

definition deepseek_process_remaining ::
    "(string \<Rightarrow> StreamChunk option) \<Rightarrow> (string \<Rightarrow> json option) \<Rightarrow> string \<Rightarrow> string
      \<Rightarrow> DeepSeekGeminiResponse list" where
  "deepseek_process_remaining parse_chunk JSON_parse model buffer =
     (if trim buffer \<noteq> [] \<and> startsWith (trim buffer) ''data: '' then
        (let jsonStr = drop 6 (trim buffer)
         in if jsonStr \<noteq> ''[DONE]'' then
              (case parse_chunk jsonStr of
                 None \<Rightarrow> []
               | Some chunk \<Rightarrow> [convertDeepSeekStreamChunkToGemini JSON_parse chunk model])
            else [])
      else [])"

definition DeepSeekContentGenerator_generateContentStream ::
    "(string \<Rightarrow> StreamChunk option) \<Rightarrow> (string \<Rightarrow> json option) \<Rightarrow> string \<Rightarrow> HttpResponse
      \<Rightarrow> js_error + DeepSeekGeminiResponse list" where
  "DeepSeekContentGenerator_generateContentStream parse_chunk JSON_parse model response =
     (if \<not> http_ok response then
        Inl (Error (''DeepSeek API error: '' @ http_status response @ '' ''
                     @ http_statusText response @ '' - '' @ http_errorText response))
      else (case http_body response of
              None \<Rightarrow> Inl (Error ''No response body from DeepSeek API'')
            | Some reads \<Rightarrow>
                (case deepseek_read_loop parse_chunk JSON_parse model reads [] of
                   (yielded, buffer) \<Rightarrow>
                     Inr (yielded
                          @ deepseek_process_remaining parse_chunk JSON_parse model buffer))))"

text \<open>\<open>countTokens\<close>: the characters of the text of every part of every content.\<close>

definition deepseek_part_chars :: "Part \<Rightarrow> nat" where
  "deepseek_part_chars part =
     (if truthy (part_text part) then length (string_or_empty (part_text part)) else 0)"

definition DeepSeekContentGenerator_countTokens :: "CountTokensParameters \<Rightarrow> js_error + nat" where
  "DeepSeekContentGenerator_countTokens request =
     (case iterate_contents (count_contents request) of
        Inl e \<Rightarrow> Inl e
      | Inr contents \<Rightarrow>
          Inr (ceil_quarter
                (foldl (\<lambda>totalChars content.
                          (case iterated_parts content of
                             None \<Rightarrow> totalChars
                           | Some ps \<Rightarrow>
                               foldl (\<lambda>total part. total + deepseek_part_chars part)
                                 totalChars ps))
                   0 contents)))"

section \<open>Specification functions and sample inputs\<close>



text \<open>A complete DeepSeek response that stopped at the token limit.\<close>

definition length_limited_choice :: ResponseChoice where
  "length_limited_choice =
     \<lparr>rchoice_message = \<lparr>rmessage_role = ''assistant'', rmessage_content = Some ''Hi'',
                          rmessage_tool_calls = None\<rparr>,
      rchoice_finish_reason = ''length''\<rparr>"

definition length_limited_response :: DeepSeekChatCompletionResponse where
  "length_limited_response =
     \<lparr>completion_model = ''deepseek-chat'',
      completion_choices = [length_limited_choice],
      completion_usage = \<lparr>prompt_tokens = 5, completion_tokens = 1, total_tokens = 6\<rparr>\<rparr>"

text \<open>A process that has sent nothing and routes through the default dispatcher.\<close>

definition fresh_process :: process_state where
  "fresh_process = \<lparr>globalDispatcher = DefaultDispatcher, requests_sent = []\<rparr>"

text \<open>A \<open>ProxyAgent\<close> constructor that accepts its argument.\<close>

definition accept_proxy :: "string \<Rightarrow> js_error + dispatcher" where
  "accept_proxy proxy = Inr (ProxyAgent proxy)"

text \<open>
  A stand-in for the OpenAI client's constructor that rejects an absent key only; the
  client is represented by its options.
\<close>

definition sample_OpenAI_new ::
    "OpenAIOptions \<Rightarrow> process_state \<Rightarrow> (js_error + OpenAIOptions) \<times> process_state" where
  "sample_OpenAI_new options proc =
     (case openai_apiKey options of
        None \<Rightarrow> (Inl (Error ''The OPENAI_API_KEY environment variable is missing or empty''), proc)
      | Some k \<Rightarrow> (Inr options, proc))"




section \<open>Frames of a stream\<close>

text \<open>
  The frames of a streamed body are its lines. The Kimi client processes the complete
  lines, those before the last line feed of the body; the DeepSeek generator processes
  the rest after the last line feed as well.
\<close>

definition kimi_frames :: "string list \<Rightarrow> string list" where
  "kimi_frames reads = butlast (split_nl (concat reads))"

definition deepseek_frames :: "string list \<Rightarrow> string list" where
  "deepseek_frames reads = split_nl (concat reads)"

text \<open>
  The chunk of a frame: what \<open>JSON.parse\<close> makes of the payload of a data frame that is
  not the end-of-stream sentinel. A data frame is malformed when its payload does not
  parse.
\<close>

definition kimi_frame_chunk :: "(string \<Rightarrow> StreamChunk option) \<Rightarrow> string \<Rightarrow> StreamChunk option" where
  "kimi_frame_chunk JSON_parse line =
     (if trim line \<noteq> [] \<and> startsWith line ''data: '' \<and> drop 6 line \<noteq> ''[DONE]''
      then JSON_parse (drop 6 line) else None)"

definition kimi_malformed :: "(string \<Rightarrow> StreamChunk option) \<Rightarrow> string \<Rightarrow> bool" where
  "kimi_malformed JSON_parse line =
     (trim line \<noteq> [] \<and> startsWith line ''data: '' \<and> drop 6 line \<noteq> ''[DONE]''
      \<and> JSON_parse (drop 6 line) = None)"

definition deepseek_frame_chunk :: "(string \<Rightarrow> StreamChunk option) \<Rightarrow> string \<Rightarrow> StreamChunk option" where
  "deepseek_frame_chunk parse_chunk line =
     (if trim line \<noteq> [] \<and> startsWith (trim line) ''data: '' \<and> drop 6 (trim line) \<noteq> ''[DONE]''
      then parse_chunk (drop 6 (trim line)) else None)"

definition deepseek_malformed :: "(string \<Rightarrow> StreamChunk option) \<Rightarrow> string \<Rightarrow> bool" where
  "deepseek_malformed parse_chunk line =
     (trim line \<noteq> [] \<and> startsWith (trim line) ''data: '' \<and> drop 6 (trim line) \<noteq> ''[DONE]''
      \<and> parse_chunk (drop 6 (trim line)) = None)"

text \<open>The content fragment of a chunk, empty when it has none.\<close>

definition chunk_fragment :: "StreamChunk \<Rightarrow> string" where
  "chunk_fragment chunk =
     string_or_empty (case first_choice chunk of
                        None \<Rightarrow> None | Some c \<Rightarrow> delta_content (choice_delta c))"

text \<open>
  The snapshots of a sequence of fragments: the concatenation of the first fragment, of
  the first two, and so on up to all of them.
\<close>

definition snapshots :: "string list \<Rightarrow> string list" where
  "snapshots fragments = map concat (tl (prefixes fragments))"

text \<open>The Kimi client's loop body run over parsed chunks, and the final response.\<close>

fun kimi_process_chunks ::
    "StreamChunk list \<Rightarrow> KimiStreamVars \<Rightarrow> StreamResponse list \<times> KimiStreamVars" where
  "kimi_process_chunks [] vars = ([], vars)"
| "kimi_process_chunks (chunk # chunks) vars =
     (case kimi_process_chunk chunk vars of
        (yielded, vars1) \<Rightarrow>
          (case kimi_process_chunks chunks vars1 of
             (later, vars2) \<Rightarrow> (yielded @ later, vars2)))"

definition kimi_final :: "string \<Rightarrow> KimiStreamVars \<Rightarrow> StreamResponse list" where
  "kimi_final model vars =
     (if kimi_accumulatedContent vars \<noteq> []
      then [\<lparr>response_text = kimi_accumulatedContent vars,
             response_finishReason = Some ''STOP'',
             response_usageMetadata = kimi_usageMetadata vars,
             response_modelVersion = mapModelToKimi model\<rparr>]
      else [])"

definition kimi_stream_of_chunks :: "string \<Rightarrow> StreamChunk list \<Rightarrow> StreamResponse list" where
  "kimi_stream_of_chunks model chunks =
     (case kimi_process_chunks chunks \<lparr>kimi_accumulatedContent = [], kimi_usageMetadata = None\<rparr> of
        (yielded, vars) \<Rightarrow> yielded @ kimi_final model vars)"

text \<open>The running concatenation of fragments after a start.\<close>

fun running :: "string \<Rightarrow> string list \<Rightarrow> string list" where
  "running a [] = []"
| "running a (f # fs) = (a @ f) # running (a @ f) fs"

text \<open>The fragments of the chunks that are not empty.\<close>

definition nonempty_fragments :: "StreamChunk list \<Rightarrow> string list" where
  "nonempty_fragments chunks = filter (\<lambda>f. f \<noteq> []) (map chunk_fragment chunks)"

text \<open>The fragments the Kimi client receives from the reads of a body.\<close>

definition kimi_fragments :: "(string \<Rightarrow> StreamChunk option) \<Rightarrow> string list \<Rightarrow> string list" where
  "kimi_fragments JSON_parse reads =
     nonempty_fragments (List.map_filter (kimi_frame_chunk JSON_parse) (kimi_frames reads))"

section \<open>Sample streams\<close>

text \<open>
  Chunks with a content fragment and a chunk with the finish reason \<open>stop\<close>, their JSON
  texts, and \<open>JSON.parse\<close> on these texts (every other text is taken as unparseable).
\<close>

definition content_chunk :: "string \<Rightarrow> StreamChunk" where
  "content_chunk fragment =
     \<lparr>chunk_model = ''moonshot-v1-8k'',
      chunk_choices = [\<lparr>choice_delta = \<lparr>delta_role = None, delta_content = Some fragment,
                                         delta_tool_calls = None\<rparr>,
                        choice_finish_reason = None\<rparr>],
      chunk_usage = None\<rparr>"

definition stop_chunk :: StreamChunk where
  "stop_chunk =
     \<lparr>chunk_model = ''moonshot-v1-8k'',
      chunk_choices = [\<lparr>choice_delta = \<lparr>delta_role = None, delta_content = None,
                                         delta_tool_calls = None\<rparr>,
                        choice_finish_reason = Some ''stop''\<rparr>],
      chunk_usage = None\<rparr>"

definition payload_He :: string where
  \<open>payload_He = ''{"model":"moonshot-v1-8k","choices":[{"index":0,"delta":{"content":"He"}}]}''\<close>

definition payload_llo :: string where
  \<open>payload_llo = ''{"model":"moonshot-v1-8k","choices":[{"index":0,"delta":{"content":"llo"}}]}''\<close>

definition payload_stop :: string where
  \<open>payload_stop = ''{"model":"moonshot-v1-8k","choices":[{"index":0,"delta":{},"finish_reason":"stop"}]}''\<close>

definition sample_JSON_parse :: "string \<Rightarrow> StreamChunk option" where
  "sample_JSON_parse s =
     (if s = payload_He then Some (content_chunk ''He'')
      else if s = payload_llo then Some (content_chunk ''llo'')
      else if s = payload_stop then Some stop_chunk
      else None)"

text \<open>A successful response with the given reads of its body.\<close>

definition ok_response :: "string list \<Rightarrow> HttpResponse" where
  "ok_response reads = \<lparr>http_ok = True, http_status = ''200'', http_statusText = ''OK'',
                         http_errorText = [], http_body = Some reads\<rparr>"

text \<open>
  Three frames carrying \<open>He\<close>, \<open>llo\<close> and the finish signal, then the sentinel, cut into
  reads in the middle of a frame.
\<close>

definition hello_reads :: "string list" where
  "hello_reads =
     [''data: '' @ payload_He @ ''\<newline>\<newline>da'',
      ''ta: '' @ payload_llo @ ''\<newline>\<newline>'',
      ''data: '' @ payload_stop @ ''\<newline>\<newline>data: [DONE]\<newline>\<newline>'']"

text \<open>A stream of the finish signal and the sentinel only.\<close>

definition stop_only_reads :: "string list" where
  "stop_only_reads = [''data: '' @ payload_stop @ ''\<newline>\<newline>'', ''data: [DONE]\<newline>\<newline>'']"

text \<open>Two valid frames with a malformed one between them, and the same without it.\<close>

definition reads_with_malformed :: "string list" where
  "reads_with_malformed =
     [''data: '' @ payload_He @ ''\<newline>'', ''data: not-json\<newline>'',
      ''data: '' @ payload_llo @ ''\<newline>'', ''data: [DONE]\<newline>'']"

definition reads_without_malformed :: "string list" where
  "reads_without_malformed =
     [''data: '' @ payload_He @ ''\<newline>'',
      ''data: '' @ payload_llo @ ''\<newline>'', ''data: [DONE]\<newline>'']"

section \<open>Properties of the string operations\<close>

lemma startsWith_iff_prefix: "startsWith s p \<longleftrightarrow> prefix p s"
  by (induction s p rule: startsWith.induct) auto

lemma startsWith_append: "startsWith (p @ r) p"
  by (simp add: startsWith_iff_prefix)

lemma str_includes_iff: "str_includes s sub \<longleftrightarrow> (\<exists>ps ss. s = ps @ sub @ ss)"
proof (induction s)
  case Nil
  show ?case by auto
next
  case (Cons c cs)
  show ?case
  proof
    assume "str_includes (c # cs) sub"
    then consider "startsWith (c # cs) sub" | "str_includes cs sub" by auto
    then show "\<exists>ps ss. c # cs = ps @ sub @ ss"
    proof cases
      case 1
      then obtain ss where "c # cs = sub @ ss"
        by (auto simp: startsWith_iff_prefix prefix_def)
      then have "c # cs = [] @ sub @ ss" by simp
      then show ?thesis by blast
    next
      case 2
      with Cons.IH obtain ps ss where "cs = ps @ sub @ ss" by blast
      then have "c # cs = (c # ps) @ sub @ ss" by simp
      then show ?thesis by blast
    qed
  next
    assume "\<exists>ps ss. c # cs = ps @ sub @ ss"
    then obtain ps ss where eq: "c # cs = ps @ sub @ ss" by blast
    show "str_includes (c # cs) sub"
    proof (cases ps)
      case Nil
      with eq have "startsWith (c # cs) sub"
        by (simp add: startsWith_iff_prefix)
      then show ?thesis by simp
    next
      case (Cons a ps')
      with eq have "cs = ps' @ sub @ ss" by simp
      with Cons.IH have "str_includes cs sub" by blast
      then show ?thesis by simp
    qed
  qed
qed

section \<open>The effective model\<close>

lemma str_includes_iff_sublist: "str_includes s sub \<longleftrightarrow> sublist sub s"
  by (simp add: str_includes_iff sublist_def)

text \<open>
  C1. In fallback mode a requested model whose name does not contain \<open>lite\<close> is
  downgraded: to \<open>hunyuan-standard\<close>, the Hunyuan family's fallback, when the name
  contains \<open>hunyuan\<close>, and to the system-wide default \<open>gemini-2.5-flash\<close> otherwise.
\<close>

theorem getEffectiveModel_fallback_downgrade:
  assumes "\<not> sublist ''lite'' requestedModel"
  shows "getEffectiveModel True requestedModel =
           (if sublist ''hunyuan'' requestedModel then ''hunyuan-standard''
            else ''gemini-2.5-flash'')"
  using assms
  by (simp add: getEffectiveModel_def DEFAULT_HUNYUAN_STANDARD_MODEL_def
      DEFAULT_GEMINI_FLASH_MODEL_def str_includes_iff_sublist)

theorem getEffectiveModel_fallback_downgrade_witness:
  "\<not> sublist ''lite'' ''hunyuan-pro''
   \<and> getEffectiveModel True ''hunyuan-pro'' = ''hunyuan-standard''
   \<and> \<not> sublist ''lite'' ''gemini-2.5-pro''
   \<and> getEffectiveModel True ''gemini-2.5-pro'' = ''gemini-2.5-flash''"
proof -
  have h1: "\<not> sublist ''lite'' ''hunyuan-pro''"
    unfolding str_includes_iff_sublist [symmetric] by simp
  have h2: "\<not> sublist ''lite'' ''gemini-2.5-pro''"
    unfolding str_includes_iff_sublist [symmetric] by simp
  have i1: "sublist ''hunyuan'' ''hunyuan-pro''"
    unfolding str_includes_iff_sublist [symmetric] by simp
  have i2: "\<not> sublist ''hunyuan'' ''gemini-2.5-pro''"
    unfolding str_includes_iff_sublist [symmetric] by simp
  from getEffectiveModel_fallback_downgrade [OF h1] i1
  have r1: "getEffectiveModel True ''hunyuan-pro'' = ''hunyuan-standard''" by simp
  from getEffectiveModel_fallback_downgrade [OF h2] i2
  have r2: "getEffectiveModel True ''gemini-2.5-pro'' = ''gemini-2.5-flash''" by simp
  from h1 h2 r1 r2 show ?thesis by blast
qed

text \<open>
  C2. Outside fallback mode the requested model is returned unchanged, whatever its
  name; in fallback mode a requested model whose name contains \<open>lite\<close> is returned
  unchanged.
\<close>

theorem getEffectiveModel_identity:
  "getEffectiveModel False requestedModel = requestedModel
   \<and> (sublist ''lite'' requestedModel \<longrightarrow> getEffectiveModel True requestedModel = requestedModel)"
  by (simp add: getEffectiveModel_def str_includes_iff_sublist)

theorem getEffectiveModel_identity_witness:
  "getEffectiveModel False ''gemini-2.5-pro'' = ''gemini-2.5-pro''
   \<and> sublist ''lite'' ''gemini-2.5-custom-lite-vNext''
   \<and> getEffectiveModel True ''gemini-2.5-custom-lite-vNext'' = ''gemini-2.5-custom-lite-vNext''"
proof -
  have h: "sublist ''lite'' ''gemini-2.5-custom-lite-vNext''"
    unfolding str_includes_iff_sublist [symmetric] by simp
  from getEffectiveModel_identity [of "''gemini-2.5-pro''"]
  have r1: "getEffectiveModel False ''gemini-2.5-pro'' = ''gemini-2.5-pro''" by blast
  from getEffectiveModel_identity [of "''gemini-2.5-custom-lite-vNext''"] h
  have r2: "getEffectiveModel True ''gemini-2.5-custom-lite-vNext'' = ''gemini-2.5-custom-lite-vNext''"
    by blast
  from h r1 r2 show ?thesis by blast
qed

section \<open>Properties of the helpers\<close>


lemma join_eq_Nil_iff: "join sep xs = [] \<longleftrightarrow> (\<forall>x \<in> set xs. x = []) \<and> (sep = [] \<or> length xs \<le> 1)"
  by (induction sep xs rule: join.induct) auto



lemma toLowerCaseUnit_not_upper: "(of_char (toLowerCaseUnit c) :: nat) \<notin> {65..90}"
proof -
  have lt: "(of_char c :: nat) < 256" by simp
  show ?thesis
    using lt by (auto simp: toLowerCaseUnit_def Let_def)
qed

lemma toLowerCase_no_upper:
  assumes "c \<in> set (toLowerCase s)"
  shows "(of_char c :: nat) \<notin> {65..90}"
  using assms toLowerCaseUnit_not_upper by (auto simp: toLowerCase_def)

lemma toLowerCase_prototype_names:
  assumes "toLowerCase s \<in> set Object_prototype_names"
  shows "toLowerCase s = ''constructor'' \<or> toLowerCase s = ''__proto__''"
proof (rule ccontr)
  assume n: "\<not> ?thesis"
  have "\<exists>c \<in> set (toLowerCase s). (of_char c :: nat) \<in> {65..90}"
    using assms n unfolding Object_prototype_names_def
    by (elim disjE | simp)+
  then show False using toLowerCase_no_upper by blast
qed

lemma modelMap_values_nonempty: "map_of modelMap k = Some v \<Longrightarrow> v \<noteq> []"
  by (auto simp: modelMap_def split: if_splits)

section \<open>The model name sent to Kimi\<close>

text \<open>
  C9. \<open>mapModelToKimi\<close> looks the lower-case form of the name up in its table. A name
  found there is mapped to the table's value. A name not found there (the names
  \<open>constructor\<close> and \<open>__proto__\<close>, which a plain object inherits, aside) is
  returned unchanged when its lower-case form starts with \<open>kimi-\<close> or
  \<open>moonshot-\<close>, and is replaced by \<open>moonshot-v1-32k\<close> otherwise.
\<close>

theorem mapModelToKimi_cases:
  "(\<forall>v. map_of modelMap (toLowerCase model) = Some v \<longrightarrow> mapModelToKimi model = Str v)
   \<and> (map_of modelMap (toLowerCase model) = None
        \<and> toLowerCase model \<noteq> ''constructor'' \<and> toLowerCase model \<noteq> ''__proto__''
      \<longrightarrow> mapModelToKimi model =
            Str (if startsWith (toLowerCase model) ''kimi-''
                    \<or> startsWith (toLowerCase model) ''moonshot-''
                 then model else ''moonshot-v1-32k''))"
proof (intro conjI allI impI)
  fix v assume "map_of modelMap (toLowerCase model) = Some v"
  then show "mapModelToKimi model = Str v"
    using modelMap_values_nonempty [of "toLowerCase model" v]
    by (simp add: mapModelToKimi_def object_get_def Let_def)
next
  assume a: "map_of modelMap (toLowerCase model) = None
        \<and> toLowerCase model \<noteq> ''constructor'' \<and> toLowerCase model \<noteq> ''__proto__''"
  then have "toLowerCase model \<notin> set Object_prototype_names"
    using toLowerCase_prototype_names [of model] by blast
  with a show "mapModelToKimi model =
            Str (if startsWith (toLowerCase model) ''kimi-''
                    \<or> startsWith (toLowerCase model) ''moonshot-''
                 then model else ''moonshot-v1-32k'')"
    by (simp add: mapModelToKimi_def object_get_def Let_def)
qed

lemma toLowerCase_Kimi_Pro: "toLowerCase ''Kimi-Pro'' = ''kimi-pro''" by code_simp
lemma toLowerCase_kimi_latest: "toLowerCase ''kimi-latest'' = ''kimi-latest''" by code_simp
lemma toLowerCase_gemini_pro: "toLowerCase ''gemini-2.5-pro'' = ''gemini-2.5-pro''" by code_simp

theorem mapModelToKimi_cases_witness:
  "mapModelToKimi ''Kimi-Pro'' = Str ''moonshot-v1-8k''
   \<and> mapModelToKimi ''kimi-latest'' = Str ''kimi-latest''
   \<and> mapModelToKimi ''gemini-2.5-pro'' = Str ''moonshot-v1-32k''"
proof -
  have t1: "map_of modelMap (toLowerCase ''Kimi-Pro'') = Some ''moonshot-v1-8k''"
    by (simp add: toLowerCase_Kimi_Pro modelMap_def)
  have t2: "map_of modelMap (toLowerCase ''kimi-latest'') = None
        \<and> toLowerCase ''kimi-latest'' \<noteq> ''constructor'' \<and> toLowerCase ''kimi-latest'' \<noteq> ''__proto__''"
    by (simp add: toLowerCase_kimi_latest modelMap_def)
  have t3: "map_of modelMap (toLowerCase ''gemini-2.5-pro'') = None
        \<and> toLowerCase ''gemini-2.5-pro'' \<noteq> ''constructor'' \<and> toLowerCase ''gemini-2.5-pro'' \<noteq> ''__proto__''"
    by (simp add: toLowerCase_gemini_pro modelMap_def)
  from mapModelToKimi_cases [of "''Kimi-Pro''"] t1
  have r1: "mapModelToKimi ''Kimi-Pro'' = Str ''moonshot-v1-8k''" by blast
  from mapModelToKimi_cases [of "''kimi-latest''"] t2
  have r2: "mapModelToKimi ''kimi-latest'' = Str ''kimi-latest''"
    by (simp add: toLowerCase_kimi_latest)
  from mapModelToKimi_cases [of "''gemini-2.5-pro''"] t3
  have r3: "mapModelToKimi ''gemini-2.5-pro'' = Str ''moonshot-v1-32k''"
    by (simp add: toLowerCase_gemini_pro)
  from r1 r2 r3 show ?thesis by blast
qed

text \<open>
  The name \<open>gemini-2.5-pro\<close> is not in the table and is not passed through.
\<close>

theorem mapModelToKimi_not_passthrough:
  "map_of modelMap ''gemini-2.5-pro'' = None
   \<and> map_of modelMap (toLowerCase ''gemini-2.5-pro'') = None
   \<and> mapModelToKimi ''gemini-2.5-pro'' = Str ''moonshot-v1-32k''
   \<and> mapModelToKimi ''gemini-2.5-pro'' \<noteq> Str ''gemini-2.5-pro''"
  by (simp add: mapModelToKimi_def object_get_def Let_def toLowerCase_gemini_pro modelMap_def
      Object_prototype_names_def)

section \<open>Finish reasons\<close>

text \<open>
  C6. \<open>convertFinishReason\<close> maps \<open>stop\<close> to \<open>STOP\<close>, \<open>length\<close> to \<open>MAX_TOKENS\<close>,
  \<open>content_filter\<close> to \<open>SAFETY\<close> and every other string to \<open>OTHER\<close>; it is total.
  \<open>convertDeepSeekResponseToGemini\<close> knows \<open>stop\<close> only: the finish reason of its response
  is \<open>STOP\<close> for \<open>stop\<close> and \<open>OTHER\<close> for every other string.
\<close>

theorem finish_reason_mapping:
  "convertFinishReason ''stop'' = STOP
   \<and> convertFinishReason ''length'' = MAX_TOKENS
   \<and> convertFinishReason ''content_filter'' = SAFETY
   \<and> (reason \<noteq> ''stop'' \<and> reason \<noteq> ''length'' \<and> reason \<noteq> ''content_filter''
        \<longrightarrow> convertFinishReason reason = OTHER)
   \<and> (completion_choices deepseekResponse = choice # choices
        \<longrightarrow> (\<exists>out. convertDeepSeekResponseToGemini JSON_parse deepseekResponse model = Inr out
              \<and> map candidate_finishReason (gemini_candidates out)
                  = [Some (if rchoice_finish_reason choice = ''stop'' then STOP else OTHER)]))"
  by (simp add: convertFinishReason_def convertDeepSeekResponseToGemini_def Let_def)

theorem finish_reason_mapping_witness:
  "convertFinishReason ''tool_calls'' = OTHER
   \<and> (\<exists>out. convertDeepSeekResponseToGemini (\<lambda>s. None) length_limited_response ''deepseek-chat''
               = Inr out
              \<and> map candidate_finishReason (gemini_candidates out) = [Some OTHER])"
proof -
  have h: "''tool_calls'' \<noteq> ''stop'' \<and> ''tool_calls'' \<noteq> ''length''
           \<and> ''tool_calls'' \<noteq> ''content_filter''"
    by simp
  have c: "completion_choices length_limited_response = length_limited_choice # []"
    by (simp add: length_limited_response_def)
  have f: "rchoice_finish_reason length_limited_choice = ''length''"
    by (simp add: length_limited_choice_def)
  from finish_reason_mapping [where reason = "''tool_calls''"
      and deepseekResponse = length_limited_response and choices = "[]"
      and choice = length_limited_choice
      and JSON_parse = "\<lambda>s. None" and model = "''deepseek-chat''"] h c f
  show ?thesis by simp
qed

text \<open>
  A response with the finish reason \<open>length\<close> is given \<open>OTHER\<close>, not \<open>MAX_TOKENS\<close>, by
  \<open>convertDeepSeekResponseToGemini\<close>.
\<close>

theorem length_maps_to_OTHER:
  "convertDeepSeekResponseToGemini (\<lambda>s. None) length_limited_response ''deepseek-chat''
     = Inr \<lparr>gemini_candidates =
              [\<lparr>candidate_parts = [text_part ''Hi''], candidate_finishReason = Some OTHER\<rparr>],
            gemini_usageMetadata =
              Some \<lparr>promptTokenCount = 5, candidatesTokenCount = 1, totalTokenCount = 6\<rparr>,
            gemini_modelVersion = ''deepseek-chat''\<rparr>
   \<and> Some OTHER \<noteq> Some MAX_TOKENS"
  by (simp add: convertDeepSeekResponseToGemini_def length_limited_response_def
      length_limited_choice_def Let_def usage_metadata_def)

section \<open>Token estimates\<close>









text \<open>
  Contents given as one object, not as an array, are not iterable: the loop of the Kimi
  client and of the DeepSeek generator raises a \<open>TypeError\<close>.
\<close>

lemma countTokens_not_iterable:
  "KimiClient_countTokens \<lparr>count_model = model, count_contents = Some (OneContent content)\<rparr>
     = Inl (TypeError ''contents is not iterable'')
   \<and> DeepSeekContentGenerator_countTokens
        \<lparr>count_model = model, count_contents = Some (OneContent content)\<rparr>
     = Inl (TypeError ''contents is not iterable'')"
  by (simp add: KimiClient_countTokens_def DeepSeekContentGenerator_countTokens_def)

section \<open>Constructors\<close>

text \<open>
  C7. The Kimi client's constructor fails with the error \<open>KIMI_API_KEY is required\<close> on
  an absent or empty key and otherwise returns the instance, in both cases without
  touching the state of the process (no request is sent). The DeepSeek generator's
  constructor checks no key: without a proxy it succeeds for every key, the absent and
  the empty one included. The Hunyuan generator's constructor checks no key itself: it
  fails exactly when the OpenAI client's constructor fails on the key it is handed.
\<close>

theorem constructor_key_check:
  "(\<not> truthy apiKey \<longrightarrow>
      KimiClient_constructor apiKey httpOptions proc
        = (Inl (Error ''KIMI_API_KEY is required''), proc))
   \<and> (truthy apiKey \<longrightarrow>
      KimiClient_constructor apiKey httpOptions proc
        = (Inr \<lparr>kimi_apiKey = string_or_empty apiKey,
                 kimi_baseUrl = ''https://api.moonshot.cn/v1'',
                 kimi_httpOptions = httpOptions\<rparr>, proc))
   \<and> (\<not> truthy proxy \<longrightarrow>
      (\<exists>generator. DeepSeekContentGenerator_constructor ProxyAgent_new apiKey baseUrl proxy proc
                     = (Inr generator, proc)
                   \<and> deepseek_apiKey generator = apiKey))
   \<and> isl (fst (HunyuanContentGenerator_constructor OpenAI_new apiKey baseURL proc))
       = isl (fst (OpenAI_new \<lparr>openai_apiKey = apiKey,
                     openai_baseURL = (if truthy baseURL then string_or_empty baseURL
                                       else ''https://api.hunyuan.cloud.tencent.com/v1'')\<rparr> proc))
   \<and> snd (HunyuanContentGenerator_constructor OpenAI_new apiKey baseURL proc)
       = snd (OpenAI_new \<lparr>openai_apiKey = apiKey,
                     openai_baseURL = (if truthy baseURL then string_or_empty baseURL
                                       else ''https://api.hunyuan.cloud.tencent.com/v1'')\<rparr> proc)"
  by (auto simp: KimiClient_constructor_def KIMI_API_BASE_URL_def
      DeepSeekContentGenerator_constructor_def HunyuanContentGenerator_constructor_def Let_def
      split: prod.splits sum.splits)

theorem constructor_key_check_witness:
  "KimiClient_constructor (Some []) None fresh_process
     = (Inl (Error ''KIMI_API_KEY is required''), fresh_process)
   \<and> KimiClient_constructor None None fresh_process
     = (Inl (Error ''KIMI_API_KEY is required''), fresh_process)
   \<and> KimiClient_constructor (Some ''sk-test'') None fresh_process
        = (Inr \<lparr>kimi_apiKey = ''sk-test'',
                 kimi_baseUrl = ''https://api.moonshot.cn/v1'',
                 kimi_httpOptions = None\<rparr>, fresh_process)
   \<and> (\<exists>generator. DeepSeekContentGenerator_constructor accept_proxy None None None fresh_process
                     = (Inr generator, fresh_process)
                   \<and> deepseek_apiKey generator = None)
   \<and> \<not> isl (fst (HunyuanContentGenerator_constructor sample_OpenAI_new (Some []) None
                      fresh_process))"
proof -
  have f1: "\<not> truthy (Some [])" by simp
  have f2: "\<not> truthy None" by simp
  have t: "truthy (Some ''sk-test'')" by simp
  from constructor_key_check [where apiKey = "Some []" and httpOptions = None
      and proc = fresh_process and proxy = None and ProxyAgent_new = accept_proxy
      and baseUrl = None and OpenAI_new = sample_OpenAI_new and baseURL = None] f1
  have r1: "KimiClient_constructor (Some []) None fresh_process
     = (Inl (Error ''KIMI_API_KEY is required''), fresh_process)"
   and r5: "\<not> isl (fst (HunyuanContentGenerator_constructor sample_OpenAI_new (Some []) None
                      fresh_process))"
    by (simp_all add: sample_OpenAI_new_def)
  from constructor_key_check [where apiKey = None and httpOptions = None
      and proc = fresh_process and proxy = None and ProxyAgent_new = accept_proxy
      and baseUrl = None and OpenAI_new = sample_OpenAI_new and baseURL = None] f2
  have r2: "KimiClient_constructor None None fresh_process
     = (Inl (Error ''KIMI_API_KEY is required''), fresh_process)"
   and r4: "\<exists>generator. DeepSeekContentGenerator_constructor accept_proxy None None None fresh_process
                     = (Inr generator, fresh_process)
                   \<and> deepseek_apiKey generator = None" by blast+
  from constructor_key_check [where apiKey = "Some ''sk-test''" and httpOptions = None
      and proc = fresh_process and proxy = None and ProxyAgent_new = accept_proxy
      and baseUrl = None and OpenAI_new = sample_OpenAI_new and baseURL = None] t
  have r3: "KimiClient_constructor (Some ''sk-test'') None fresh_process
        = (Inr \<lparr>kimi_apiKey = ''sk-test'',
                 kimi_baseUrl = ''https://api.moonshot.cn/v1'',
                 kimi_httpOptions = None\<rparr>, fresh_process)" by simp
  from r1 r2 r3 r4 r5 show ?thesis by blast
qed

text \<open>The DeepSeek generator is constructed with an empty and with an absent key.\<close>

theorem deepseek_accepts_empty_key:
  "DeepSeekContentGenerator_constructor accept_proxy (Some []) None None fresh_process
     = (Inr \<lparr>deepseek_apiKey = Some [], deepseek_baseUrl = ''https://api.deepseek.com'',
              deepseek_proxy = None\<rparr>, fresh_process)
   \<and> DeepSeekContentGenerator_constructor accept_proxy None None None fresh_process
     = (Inr \<lparr>deepseek_apiKey = None, deepseek_baseUrl = ''https://api.deepseek.com'',
              deepseek_proxy = None\<rparr>, fresh_process)"
  by (simp add: DeepSeekContentGenerator_constructor_def DEEPSEEK_API_BASE_URL_def Let_def)

text \<open>
  C10. The DeepSeek generator's constructor leaves the state of the process unchanged
  when no proxy is given (absent or empty), and when \<open>ProxyAgent\<close> rejects the proxy; with
  a proxy that is accepted it replaces the global dispatcher of the process by the proxy
  agent and changes nothing else. It sends no request. The Kimi client's constructor
  leaves the state of the process unchanged.
\<close>

theorem constructor_process_state:
  "(\<not> truthy proxy \<longrightarrow>
      snd (DeepSeekContentGenerator_constructor ProxyAgent_new apiKey baseUrl proxy proc) = proc)
   \<and> (truthy proxy \<and> ProxyAgent_new (string_or_empty proxy) = Inr proxyAgent \<longrightarrow>
      snd (DeepSeekContentGenerator_constructor ProxyAgent_new apiKey baseUrl proxy proc)
        = proc\<lparr>globalDispatcher := proxyAgent\<rparr>)
   \<and> (truthy proxy \<and> ProxyAgent_new (string_or_empty proxy) = Inl e \<longrightarrow>
      DeepSeekContentGenerator_constructor ProxyAgent_new apiKey baseUrl proxy proc = (Inl e, proc))
   \<and> requests_sent (snd (DeepSeekContentGenerator_constructor ProxyAgent_new apiKey baseUrl proxy proc))
       = requests_sent proc
   \<and> snd (KimiClient_constructor apiKey httpOptions proc) = proc"
  by (auto simp: KimiClient_constructor_def DeepSeekContentGenerator_constructor_def Let_def
      setGlobalDispatcher_def split: sum.splits)

theorem constructor_process_state_witness:
  "snd (DeepSeekContentGenerator_constructor accept_proxy (Some ''sk-test'') None None fresh_process)
     = fresh_process
   \<and> snd (DeepSeekContentGenerator_constructor accept_proxy (Some ''sk-test'') None
            (Some ''http://127.0.0.1:7890'') fresh_process)
     = \<lparr>globalDispatcher = ProxyAgent ''http://127.0.0.1:7890'', requests_sent = []\<rparr>
   \<and> DeepSeekContentGenerator_constructor (\<lambda>p. Inl (TypeError ''Invalid URL'')) (Some ''sk-test'')
         None (Some ''nonsense'') fresh_process
     = (Inl (TypeError ''Invalid URL''), fresh_process)"
proof -
  have f: "\<not> truthy None" by simp
  have t: "truthy (Some ''http://127.0.0.1:7890'')
           \<and> accept_proxy (string_or_empty (Some ''http://127.0.0.1:7890''))
               = Inr (ProxyAgent ''http://127.0.0.1:7890'')"
    by (simp add: accept_proxy_def)
  have t2: "truthy (Some ''nonsense'')
           \<and> (\<lambda>p. Inl (TypeError ''Invalid URL'')) (string_or_empty (Some ''nonsense''))
               = (Inl (TypeError ''Invalid URL'') :: js_error + dispatcher)"
    by simp
  from constructor_process_state [where proxy = None and ProxyAgent_new = accept_proxy
      and apiKey = "Some ''sk-test''" and baseUrl = None and proc = fresh_process] f
  have r1: "snd (DeepSeekContentGenerator_constructor accept_proxy (Some ''sk-test'') None None fresh_process)
     = fresh_process" by blast
  from constructor_process_state [where proxy = "Some ''http://127.0.0.1:7890''"
      and ProxyAgent_new = accept_proxy and proxyAgent = "ProxyAgent ''http://127.0.0.1:7890''"
      and apiKey = "Some ''sk-test''" and baseUrl = None and proc = fresh_process] t
  have r2: "snd (DeepSeekContentGenerator_constructor accept_proxy (Some ''sk-test'') None
            (Some ''http://127.0.0.1:7890'') fresh_process)
     = \<lparr>globalDispatcher = ProxyAgent ''http://127.0.0.1:7890'', requests_sent = []\<rparr>"
    by (simp add: fresh_process_def)
  from constructor_process_state [where proxy = "Some ''nonsense''"
      and ProxyAgent_new = "\<lambda>p. Inl (TypeError ''Invalid URL'')" and e = "TypeError ''Invalid URL''"
      and apiKey = "Some ''sk-test''" and baseUrl = None and proc = fresh_process] t2
  have r3: "DeepSeekContentGenerator_constructor (\<lambda>p. Inl (TypeError ''Invalid URL'')) (Some ''sk-test'')
         None (Some ''nonsense'') fresh_process
     = (Inl (TypeError ''Invalid URL''), fresh_process)" by blast
  from r1 r2 r3 show ?thesis by blast
qed

text \<open>
  Constructed with a proxy, the DeepSeek generator replaces the dispatcher of the whole
  process.
\<close>

theorem deepseek_constructor_sets_global_dispatcher:
  "globalDispatcher fresh_process = DefaultDispatcher
   \<and> DeepSeekContentGenerator_constructor accept_proxy (Some ''sk-test'') None
        (Some ''http://127.0.0.1:7890'') fresh_process
      = (Inr \<lparr>deepseek_apiKey = Some ''sk-test'', deepseek_baseUrl = ''https://api.deepseek.com'',
               deepseek_proxy = Some ''http://127.0.0.1:7890''\<rparr>,
         \<lparr>globalDispatcher = ProxyAgent ''http://127.0.0.1:7890'', requests_sent = []\<rparr>)
   \<and> snd (DeepSeekContentGenerator_constructor accept_proxy (Some ''sk-test'') None
        (Some ''http://127.0.0.1:7890'') fresh_process) \<noteq> fresh_process"
  by (simp add: DeepSeekContentGenerator_constructor_def DEEPSEEK_API_BASE_URL_def Let_def
      accept_proxy_def setGlobalDispatcher_def fresh_process_def)

section \<open>Turns as messages\<close>











section \<open>Streams\<close>

lemma split_nl_not_Nil: "split_nl s \<noteq> []"
  by (induction s) (auto split: list.splits)

lemma split_nl_no_newline: "CHR 0x0A \<notin> set s \<Longrightarrow> split_nl s = [s]"
  by (induction s) auto

lemma split_nl_segments: "l \<in> set (split_nl s) \<Longrightarrow> CHR 0x0A \<notin> set l"
proof (induction s arbitrary: l)
  case Nil
  then show ?case by simp
next
  case (Cons c cs)
  obtain l' ls where s: "split_nl cs = l' # ls"
    using split_nl_not_Nil [of cs] by (cases "split_nl cs") auto
  with Cons show ?case
    by (cases "c = CHR 0x0A") (auto split: if_splits)
qed

lemma last_split_nl_no_newline: "CHR 0x0A \<notin> set (last (split_nl s))"
  using split_nl_segments [of "last (split_nl s)" s] split_nl_not_Nil [of s] by simp

lemma split_nl_append:
  "split_nl (a @ b) = butlast (split_nl a) @ split_nl (last (split_nl a) @ b)"
proof (induction a)
  case Nil
  show ?case by simp
next
  case (Cons c cs)
  obtain l ls where s: "split_nl cs = l # ls"
    using split_nl_not_Nil [of cs] by (cases "split_nl cs") auto
  show ?case
  proof (cases "c = CHR 0x0A")
    case True
    with Cons.IH s show ?thesis by simp
  next
    case False
    show ?thesis
    proof (cases ls)
      case Nil
      with Cons.IH s False show ?thesis by simp
    next
      case (Cons l' ls')
      with Cons.IH s False show ?thesis by simp
    qed
  qed
qed

lemma kimi_process_line_chunk:
  "kimi_process_line JSON_parse line vars =
     (case kimi_frame_chunk JSON_parse line of
        None \<Rightarrow> ([], vars)
      | Some chunk \<Rightarrow> kimi_process_chunk chunk vars)"
  by (simp add: kimi_process_line_def kimi_frame_chunk_def Let_def)

lemma kimi_process_lines_chunks:
  "kimi_process_lines JSON_parse lines vars =
     kimi_process_chunks (List.map_filter (kimi_frame_chunk JSON_parse) lines) vars"
proof (induction lines arbitrary: vars)
  case Nil
  show ?case by (simp add: List.map_filter_simps)
next
  case (Cons line lines)
  show ?case
    by (cases "kimi_frame_chunk JSON_parse line")
       (simp_all add: kimi_process_line_chunk List.map_filter_simps Cons.IH)
qed

lemma kimi_process_chunks_append:
  "kimi_process_chunks (xs @ ys) vars =
     (case kimi_process_chunks xs vars of
        (a, vars1) \<Rightarrow>
          (case kimi_process_chunks ys vars1 of (b, vars2) \<Rightarrow> (a @ b, vars2)))"
  by (induction xs arbitrary: vars) (auto split: prod.splits)

lemma map_filter_append: "List.map_filter f (xs @ ys) = List.map_filter f xs @ List.map_filter f ys"
  by (simp add: List.map_filter_def)

lemma kimi_read_loop_lines:
  assumes "CHR 0x0A \<notin> set buffer"
  shows "kimi_read_loop JSON_parse reads buffer vars =
     (case kimi_process_lines JSON_parse (butlast (split_nl (buffer @ concat reads))) vars of
        (yielded, vars1) \<Rightarrow> (yielded, last (split_nl (buffer @ concat reads)), vars1))"
  using assms
proof (induction reads arbitrary: buffer vars)
  case Nil
  then show ?case by (simp add: split_nl_no_newline)
next
  case (Cons v reads)
  let ?lines = "split_nl (buffer @ v)"
  let ?rest = "split_nl (last ?lines @ concat reads)"
  have all: "split_nl (buffer @ concat (v # reads)) = butlast ?lines @ ?rest"
    using split_nl_append [of "buffer @ v" "concat reads"] by simp
  have bl: "butlast (butlast ?lines @ ?rest) = butlast ?lines @ butlast ?rest"
    using split_nl_not_Nil by (simp add: butlast_append)
  have la: "last (butlast ?lines @ ?rest) = last ?rest"
    using split_nl_not_Nil by simp
  show ?case
    unfolding all bl la
    by (simp add: Let_def Cons.IH [OF last_split_nl_no_newline] kimi_process_lines_chunks
        map_filter_append kimi_process_chunks_append split: prod.splits)
qed

lemma kimi_stream_as_chunks:
  assumes "http_ok response" and "http_body response = Some reads"
  shows "KimiClient_generateContentStream JSON_parse model response =
           Inr (kimi_stream_of_chunks model
                  (List.map_filter (kimi_frame_chunk JSON_parse) (kimi_frames reads)))"
  using assms
  by (simp add: KimiClient_generateContentStream_def kimi_read_loop_lines kimi_frames_def
      kimi_stream_of_chunks_def kimi_final_def kimi_process_lines_chunks Let_def
      split: prod.splits)

lemma kimi_malformed_no_chunk:
  "kimi_malformed JSON_parse line \<Longrightarrow> kimi_frame_chunk JSON_parse line = None"
  by (simp add: kimi_malformed_def kimi_frame_chunk_def)

lemma map_filter_filter_None:
  assumes "\<And>x. bad x \<Longrightarrow> f x = None"
  shows "List.map_filter f (filter (\<lambda>x. \<not> bad x) xs) = List.map_filter f xs"
  using assms by (induction xs) (auto simp: List.map_filter_simps split: option.splits)

lemma data_done_iff:
  "t = ''data: [DONE]'' \<longleftrightarrow> startsWith t ''data: '' \<and> drop 6 t = ''[DONE]''"
proof
  assume "t = ''data: [DONE]''"
  then show "startsWith t ''data: '' \<and> drop 6 t = ''[DONE]''" by simp
next
  assume a: "startsWith t ''data: '' \<and> drop 6 t = ''[DONE]''"
  then obtain r where "t = ''data: '' @ r"
    by (auto simp: startsWith_iff_prefix prefix_def)
  with a show "t = ''data: [DONE]''" by simp
qed

lemma deepseek_process_line_chunk:
  "deepseek_process_line parse_chunk JSON_parse model line =
     (case deepseek_frame_chunk parse_chunk line of
        None \<Rightarrow> []
      | Some chunk \<Rightarrow> [convertDeepSeekStreamChunkToGemini JSON_parse chunk model])"
  using data_done_iff [of "trim line"]
  by (auto simp: deepseek_process_line_def deepseek_frame_chunk_def Let_def)

lemma deepseek_process_remaining_line:
  "deepseek_process_remaining parse_chunk JSON_parse model buffer =
     deepseek_process_line parse_chunk JSON_parse model buffer"
  by (simp add: deepseek_process_remaining_def deepseek_process_line_chunk
      deepseek_frame_chunk_def Let_def)

lemma deepseek_lines_chunks:
  "concat (map (deepseek_process_line parse_chunk JSON_parse model) lines) =
     map (\<lambda>chunk. convertDeepSeekStreamChunkToGemini JSON_parse chunk model)
       (List.map_filter (deepseek_frame_chunk parse_chunk) lines)"
  by (induction lines)
     (auto simp: deepseek_process_line_chunk List.map_filter_simps split: option.splits)

lemma deepseek_read_loop_lines:
  assumes "CHR 0x0A \<notin> set buffer"
  shows "deepseek_read_loop parse_chunk JSON_parse model reads buffer =
     (concat (map (deepseek_process_line parse_chunk JSON_parse model)
                (butlast (split_nl (buffer @ concat reads)))),
      last (split_nl (buffer @ concat reads)))"
  using assms
proof (induction reads arbitrary: buffer)
  case Nil
  then show ?case by (simp add: split_nl_no_newline)
next
  case (Cons v reads)
  let ?lines = "split_nl (buffer @ v)"
  let ?rest = "split_nl (last ?lines @ concat reads)"
  have all: "split_nl (buffer @ concat (v # reads)) = butlast ?lines @ ?rest"
    using split_nl_append [of "buffer @ v" "concat reads"] by simp
  have bl: "butlast (butlast ?lines @ ?rest) = butlast ?lines @ butlast ?rest"
    using split_nl_not_Nil by (simp add: butlast_append)
  have la: "last (butlast ?lines @ ?rest) = last ?rest"
    using split_nl_not_Nil by simp
  show ?case
    unfolding all bl la
    by (simp add: Let_def Cons.IH [OF last_split_nl_no_newline])
qed

lemma deepseek_stream_as_chunks:
  assumes "http_ok response" and "http_body response = Some reads"
  shows "DeepSeekContentGenerator_generateContentStream parse_chunk JSON_parse model response =
           Inr (map (\<lambda>chunk. convertDeepSeekStreamChunkToGemini JSON_parse chunk model)
                  (List.map_filter (deepseek_frame_chunk parse_chunk) (deepseek_frames reads)))"
proof -
  let ?ls = "split_nl (concat reads)"
  have "butlast ?ls @ [last ?ls] = ?ls"
    using split_nl_not_Nil by simp
  then have "concat (map (deepseek_process_line parse_chunk JSON_parse model) (butlast ?ls))
             @ deepseek_process_line parse_chunk JSON_parse model (last ?ls)
           = concat (map (deepseek_process_line parse_chunk JSON_parse model) ?ls)"
    by (metis (no_types, lifting) append_Nil2 concat.simps(1) concat.simps(2) concat_append
        list.simps(8) list.simps(9) map_append)
  with assms show ?thesis
    by (simp add: DeepSeekContentGenerator_generateContentStream_def deepseek_read_loop_lines
        deepseek_process_remaining_line deepseek_frames_def deepseek_lines_chunks)
qed

lemma deepseek_malformed_no_chunk:
  "deepseek_malformed parse_chunk line \<Longrightarrow> deepseek_frame_chunk parse_chunk line = None"
  by (simp add: deepseek_malformed_def deepseek_frame_chunk_def)

lemma prefixes_head: "prefixes xs = [] # tl (prefixes xs)"
  by (cases xs) auto

lemma running_prefixes: "running a fs = map (\<lambda>p. a @ concat p) (tl (prefixes fs))"
proof (induction fs arbitrary: a)
  case Nil
  show ?case by simp
next
  case (Cons f fs)
  have "tl (prefixes (f # fs)) = [f] # map ((#) f) (tl (prefixes fs))"
    using prefixes_head [of fs] by (metis list.sel(3) list.simps(9) prefixes.simps(2))
  then show ?case by (simp add: Cons.IH comp_def)
qed

lemma running_snapshots: "running [] fs = snapshots fs"
  by (simp add: running_prefixes snapshots_def)

lemma running_extends: "x \<in> set (running a fs) \<Longrightarrow> prefix a x"
proof (induction fs arbitrary: a)
  case Nil
  then show ?case by simp
next
  case (Cons f fs)
  then show ?case
    by (auto dest!: Cons.IH simp: prefix_def)
qed

lemma running_sorted: "sorted_wrt prefix (running a fs)"
  by (induction fs arbitrary: a) (auto dest: running_extends)

lemma running_below_total: "x \<in> set (running a fs) \<Longrightarrow> prefix x (a @ concat fs)"
proof (induction fs arbitrary: a)
  case Nil
  then show ?case by simp
next
  case (Cons f fs)
  from Cons.prems consider "x = a @ f" | "x \<in> set (running (a @ f) fs)" by auto
  then show ?case
  proof cases
    case 1
    then show ?thesis by simp
  next
    case 2
    from Cons.IH [OF 2] show ?thesis by simp
  qed
qed

lemma running_length: "length (running a fs) = length fs"
  by (induction fs arbitrary: a) auto

lemma kimi_process_chunk_fragment:
  "kimi_process_chunk chunk vars = (yielded, vars1) \<Longrightarrow>
     map response_text yielded
       = (if chunk_fragment chunk \<noteq> [] then [kimi_accumulatedContent vars @ chunk_fragment chunk]
          else [])
     \<and> kimi_accumulatedContent vars1 = kimi_accumulatedContent vars @ chunk_fragment chunk"
  by (cases "first_choice chunk"; cases "delta_content (choice_delta (the (first_choice chunk)))")
     (auto simp: kimi_process_chunk_def chunk_fragment_def Let_def)

lemma kimi_process_chunks_texts:
  "kimi_process_chunks chunks vars = (yielded, vars1) \<Longrightarrow>
     map response_text yielded = running (kimi_accumulatedContent vars) (nonempty_fragments chunks)
     \<and> kimi_accumulatedContent vars1
         = kimi_accumulatedContent vars @ concat (nonempty_fragments chunks)"
proof (induction chunks arbitrary: vars yielded vars1)
  case Nil
  then show ?case by (simp add: nonempty_fragments_def)
next
  case (Cons chunk chunks)
  obtain y v where s: "kimi_process_chunk chunk vars = (y, v)"
    by (cases "kimi_process_chunk chunk vars") auto
  obtain ys v2 where r: "kimi_process_chunks chunks v = (ys, v2)"
    by (cases "kimi_process_chunks chunks v") auto
  from Cons.prems s r have e: "yielded = y @ ys" "vars1 = v2" by auto
  from kimi_process_chunk_fragment [OF s] Cons.IH [OF r] e show ?case
    by (auto simp: nonempty_fragments_def)
qed

lemma kimi_stream_of_chunks_texts:
  "map response_text (kimi_stream_of_chunks model chunks)
     = snapshots (nonempty_fragments chunks)
       @ (if nonempty_fragments chunks = [] then [] else [concat (nonempty_fragments chunks)])"
proof -
  obtain ys v where r: "kimi_process_chunks chunks
      \<lparr>kimi_accumulatedContent = [], kimi_usageMetadata = None\<rparr> = (ys, v)"
    by (cases "kimi_process_chunks chunks \<lparr>kimi_accumulatedContent = [], kimi_usageMetadata = None\<rparr>") auto
  have ne: "concat (nonempty_fragments chunks) = [] \<longleftrightarrow> nonempty_fragments chunks = []"
    by (auto simp: nonempty_fragments_def filter_empty_conv)
  from kimi_process_chunks_texts [OF r] ne show ?thesis
    by (simp add: kimi_stream_of_chunks_def r kimi_final_def running_snapshots)
qed

lemma snapshots_total_sorted:
  "sorted_wrt prefix (snapshots fs @ (if fs = [] then [] else [concat fs]))"
  using running_sorted [of "[]" fs] running_below_total [of _ "[]" fs]
  by (simp add: running_snapshots [symmetric] sorted_wrt_append)

lemma hunyuan_process_chunk_fragment:
  "hunyuan_process_chunk model chunk vars = (response, vars1) \<Longrightarrow>
     response_text response = hunyuan_accumulatedText vars @ chunk_fragment chunk
     \<and> hunyuan_accumulatedText vars1 = hunyuan_accumulatedText vars @ chunk_fragment chunk"
  by (cases "first_choice chunk"; cases "delta_content (choice_delta (the (first_choice chunk)))")
     (auto simp: hunyuan_process_chunk_def chunk_fragment_def Let_def
        createGenerateContentResponse_def)

lemma hunyuan_stream_loop_texts:
  "map response_text (hunyuan_stream_loop model chunks vars)
     = running (hunyuan_accumulatedText vars) (map chunk_fragment chunks)"
proof (induction chunks arbitrary: vars)
  case Nil
  show ?case by simp
next
  case (Cons chunk chunks)
  obtain r v where s: "hunyuan_process_chunk model chunk vars = (r, v)"
    by (cases "hunyuan_process_chunk model chunk vars") auto
  from hunyuan_process_chunk_fragment [OF s] Cons.IH [of v] s show ?case by simp
qed

lemma hunyuan_stream_texts:
  "map response_text (HunyuanContentGenerator_streamGenerator model chunks)
     = snapshots (map chunk_fragment chunks)"
  by (simp add: HunyuanContentGenerator_streamGenerator_def hunyuan_stream_loop_texts
      running_snapshots)

lemma snapshots_sorted: "sorted_wrt prefix (snapshots fs)"
  using running_sorted [of "[]" fs] by (simp add: running_snapshots)

lemma sorted_prefix_lengths:
  "sorted_wrt prefix xs \<Longrightarrow> sorted (map length xs)"
  by (induction xs) (auto simp: prefix_def)

lemma kimi_stream_of_chunks_last:
  assumes "nonempty_fragments chunks \<noteq> []"
  shows "response_finishReason (last (kimi_stream_of_chunks model chunks)) = Some ''STOP''"
proof -
  obtain ys v where r: "kimi_process_chunks chunks
      \<lparr>kimi_accumulatedContent = [], kimi_usageMetadata = None\<rparr> = (ys, v)"
    by (cases "kimi_process_chunks chunks \<lparr>kimi_accumulatedContent = [], kimi_usageMetadata = None\<rparr>") auto
  have ne: "concat (nonempty_fragments chunks) = [] \<longleftrightarrow> nonempty_fragments chunks = []"
    by (auto simp: nonempty_fragments_def filter_empty_conv)
  from kimi_process_chunks_texts [OF r] ne assms show ?thesis
    by (simp add: kimi_stream_of_chunks_def r kimi_final_def)
qed

text \<open>
  C3. On a successful response the Kimi client yields, for every frame with a content
  fragment that is not empty, a response that carries the concatenation of all
  fragments received so far, and then, when any text was received, exactly one final
  response, the last item, with the whole text and the finish reason \<open>STOP\<close>; when no text
  was received it yields no final response. The Hunyuan generator yields one response
  for every chunk, each with the concatenation of the fragments so far. In both, every
  text is a prefix of the later ones, so the lengths never decrease.
\<close>

theorem stream_snapshots:
  "(http_ok response \<and> http_body response = Some reads \<longrightarrow>
      (\<exists>outs. KimiClient_generateContentStream JSON_parse model response = Inr outs
         \<and> map response_text outs
             = snapshots (kimi_fragments JSON_parse reads)
               @ (if kimi_fragments JSON_parse reads = [] then []
                  else [concat (kimi_fragments JSON_parse reads)])
         \<and> (kimi_fragments JSON_parse reads \<noteq> []
              \<longrightarrow> response_finishReason (last outs) = Some ''STOP'')
         \<and> sorted_wrt prefix (map response_text outs)
         \<and> sorted (map length (map response_text outs))))
   \<and> map response_text (HunyuanContentGenerator_streamGenerator model chunks)
        = snapshots (map chunk_fragment chunks)
   \<and> sorted_wrt prefix (map response_text (HunyuanContentGenerator_streamGenerator model chunks))
   \<and> sorted (map length (map response_text (HunyuanContentGenerator_streamGenerator model chunks)))"
proof (intro conjI impI)
  assume a: "http_ok response \<and> http_body response = Some reads"
  let ?chunks = "List.map_filter (kimi_frame_chunk JSON_parse) (kimi_frames reads)"
  let ?outs = "kimi_stream_of_chunks model ?chunks"
  have s: "KimiClient_generateContentStream JSON_parse model response = Inr ?outs"
    using a kimi_stream_as_chunks by blast
  have t: "map response_text ?outs
             = snapshots (kimi_fragments JSON_parse reads)
               @ (if kimi_fragments JSON_parse reads = [] then []
                  else [concat (kimi_fragments JSON_parse reads)])"
    by (simp add: kimi_stream_of_chunks_texts kimi_fragments_def)
  have l: "kimi_fragments JSON_parse reads \<noteq> []
              \<longrightarrow> response_finishReason (last ?outs) = Some ''STOP''"
    by (simp add: kimi_fragments_def kimi_stream_of_chunks_last)
  have p: "sorted_wrt prefix (map response_text ?outs)"
    unfolding t by (rule snapshots_total_sorted)
  from s t l p sorted_prefix_lengths [OF p]
  show "\<exists>outs. KimiClient_generateContentStream JSON_parse model response = Inr outs
         \<and> map response_text outs
             = snapshots (kimi_fragments JSON_parse reads)
               @ (if kimi_fragments JSON_parse reads = [] then []
                  else [concat (kimi_fragments JSON_parse reads)])
         \<and> (kimi_fragments JSON_parse reads \<noteq> []
              \<longrightarrow> response_finishReason (last outs) = Some ''STOP'')
         \<and> sorted_wrt prefix (map response_text outs)
         \<and> sorted (map length (map response_text outs))"
    by blast
next
  show "map response_text (HunyuanContentGenerator_streamGenerator model chunks)
        = snapshots (map chunk_fragment chunks)"
    by (rule hunyuan_stream_texts)
next
  show "sorted_wrt prefix (map response_text (HunyuanContentGenerator_streamGenerator model chunks))"
    by (simp add: hunyuan_stream_texts snapshots_sorted)
next
  show "sorted (map length (map response_text (HunyuanContentGenerator_streamGenerator model chunks)))"
    by (simp add: hunyuan_stream_texts snapshots_sorted sorted_prefix_lengths)
qed

lemma hello_fragments: "kimi_fragments sample_JSON_parse hello_reads = [''He'', ''llo'']"
  by code_simp

lemma hello_snapshots: "snapshots [''He'', ''llo''] = [''He'', ''Hello'']"
  by (simp add: snapshots_def)

lemma sample_chunk_fragments:
  "map chunk_fragment [content_chunk ''He'', content_chunk ''llo'', stop_chunk] = [''He'', ''llo'', []]"
  by (simp add: chunk_fragment_def content_chunk_def stop_chunk_def first_choice_def)

lemma sample_snapshots: "snapshots [''He'', ''llo'', []] = [''He'', ''Hello'', ''Hello'']"
  by (simp add: snapshots_def)

theorem stream_snapshots_witness:
  "(\<exists>outs. KimiClient_generateContentStream sample_JSON_parse ''kimi-pro'' (ok_response hello_reads)
              = Inr outs
          \<and> map response_text outs = [''He'', ''Hello'', ''Hello'']
          \<and> response_finishReason (last outs) = Some ''STOP'')
   \<and> map response_text (HunyuanContentGenerator_streamGenerator ''hunyuan-lite''
                           [content_chunk ''He'', content_chunk ''llo'', stop_chunk])
       = [''He'', ''Hello'', ''Hello'']"
proof -
  have h: "http_ok (ok_response hello_reads) \<and> http_body (ok_response hello_reads) = Some hello_reads"
    by (simp add: ok_response_def)
  from stream_snapshots [where response = "ok_response hello_reads" and reads = hello_reads
      and JSON_parse = sample_JSON_parse and model = "''kimi-pro''"
      and chunks = "[content_chunk ''He'', content_chunk ''llo'', stop_chunk]"] h
  have k: "\<exists>outs. KimiClient_generateContentStream sample_JSON_parse ''kimi-pro'' (ok_response hello_reads)
              = Inr outs
          \<and> map response_text outs = [''He'', ''Hello'', ''Hello'']
          \<and> response_finishReason (last outs) = Some ''STOP''"
    unfolding hello_fragments hello_snapshots by auto
  from stream_snapshots [where response = "ok_response hello_reads" and reads = hello_reads
      and JSON_parse = sample_JSON_parse and model = "''hunyuan-lite''"
      and chunks = "[content_chunk ''He'', content_chunk ''llo'', stop_chunk]"]
  have y: "map response_text (HunyuanContentGenerator_streamGenerator ''hunyuan-lite''
                           [content_chunk ''He'', content_chunk ''llo'', stop_chunk])
       = [''He'', ''Hello'', ''Hello'']"
    unfolding sample_chunk_fragments sample_snapshots by blast
  from k y show ?thesis by blast
qed

text \<open>
  A stream whose only chunk carries the finish signal: the Kimi client yields nothing,
  no final response either.
\<close>

theorem kimi_finish_without_final:
  "List.map_filter (kimi_frame_chunk sample_JSON_parse) (kimi_frames stop_only_reads) = [stop_chunk]
   \<and> map choice_finish_reason (chunk_choices stop_chunk) = [Some ''stop'']
   \<and> KimiClient_generateContentStream sample_JSON_parse ''kimi-pro'' (ok_response stop_only_reads)
       = Inr []"
  by code_simp

lemma kimi_chunks_without_malformed:
  "List.map_filter (kimi_frame_chunk JSON_parse)
     (filter (\<lambda>l. \<not> kimi_malformed JSON_parse l) frames)
   = List.map_filter (kimi_frame_chunk JSON_parse) frames"
  by (rule map_filter_filter_None) (rule kimi_malformed_no_chunk)

lemma deepseek_chunks_without_malformed:
  "List.map_filter (deepseek_frame_chunk parse_chunk)
     (filter (\<lambda>l. \<not> deepseek_malformed parse_chunk l) frames)
   = List.map_filter (deepseek_frame_chunk parse_chunk) frames"
  by (rule map_filter_filter_None) (rule deepseek_malformed_no_chunk)

text \<open>
  C4. A data frame whose payload does not parse is dropped: two successful responses
  whose frames differ only in malformed data frames make the Kimi client, and the
  DeepSeek generator, yield the same responses, and the stream ends without an error.
\<close>

theorem malformed_frames_discarded:
  "(http_ok response \<and> http_body response = Some reads
    \<and> http_ok response' \<and> http_body response' = Some reads'
    \<and> filter (\<lambda>l. \<not> kimi_malformed parse_chunk l) (kimi_frames reads)
        = filter (\<lambda>l. \<not> kimi_malformed parse_chunk l) (kimi_frames reads')
    \<longrightarrow> (\<exists>outs. KimiClient_generateContentStream parse_chunk model response = Inr outs
               \<and> KimiClient_generateContentStream parse_chunk model response' = Inr outs))
   \<and> (http_ok response \<and> http_body response = Some reads
    \<and> http_ok response' \<and> http_body response' = Some reads'
    \<and> filter (\<lambda>l. \<not> deepseek_malformed parse_chunk l) (deepseek_frames reads)
        = filter (\<lambda>l. \<not> deepseek_malformed parse_chunk l) (deepseek_frames reads')
    \<longrightarrow> (\<exists>outs. DeepSeekContentGenerator_generateContentStream parse_chunk JSON_parse model
                   response = Inr outs
               \<and> DeepSeekContentGenerator_generateContentStream parse_chunk JSON_parse model
                   response' = Inr outs))"
proof (intro conjI impI)
  assume a: "http_ok response \<and> http_body response = Some reads
    \<and> http_ok response' \<and> http_body response' = Some reads'
    \<and> filter (\<lambda>l. \<not> kimi_malformed parse_chunk l) (kimi_frames reads)
        = filter (\<lambda>l. \<not> kimi_malformed parse_chunk l) (kimi_frames reads')"
  then have "List.map_filter (kimi_frame_chunk parse_chunk) (kimi_frames reads)
           = List.map_filter (kimi_frame_chunk parse_chunk) (kimi_frames reads')"
    using kimi_chunks_without_malformed [of parse_chunk "kimi_frames reads"]
      kimi_chunks_without_malformed [of parse_chunk "kimi_frames reads'"] by simp
  with a show "\<exists>outs. KimiClient_generateContentStream parse_chunk model response = Inr outs
               \<and> KimiClient_generateContentStream parse_chunk model response' = Inr outs"
    using kimi_stream_as_chunks [of response reads parse_chunk model]
      kimi_stream_as_chunks [of response' reads' parse_chunk model] by simp
next
  assume a: "http_ok response \<and> http_body response = Some reads
    \<and> http_ok response' \<and> http_body response' = Some reads'
    \<and> filter (\<lambda>l. \<not> deepseek_malformed parse_chunk l) (deepseek_frames reads)
        = filter (\<lambda>l. \<not> deepseek_malformed parse_chunk l) (deepseek_frames reads')"
  then have "List.map_filter (deepseek_frame_chunk parse_chunk) (deepseek_frames reads)
           = List.map_filter (deepseek_frame_chunk parse_chunk) (deepseek_frames reads')"
    using deepseek_chunks_without_malformed [of parse_chunk "deepseek_frames reads"]
      deepseek_chunks_without_malformed [of parse_chunk "deepseek_frames reads'"] by simp
  with a show "\<exists>outs. DeepSeekContentGenerator_generateContentStream parse_chunk JSON_parse model
                   response = Inr outs
               \<and> DeepSeekContentGenerator_generateContentStream parse_chunk JSON_parse model
                   response' = Inr outs"
    using deepseek_stream_as_chunks [of response reads parse_chunk JSON_parse model]
      deepseek_stream_as_chunks [of response' reads' parse_chunk JSON_parse model] by simp
qed

lemma sample_kimi_frames_agree:
  "filter (\<lambda>l. \<not> kimi_malformed sample_JSON_parse l) (kimi_frames reads_with_malformed)
     = filter (\<lambda>l. \<not> kimi_malformed sample_JSON_parse l) (kimi_frames reads_without_malformed)"
  by code_simp

lemma sample_deepseek_frames_agree:
  "filter (\<lambda>l. \<not> deepseek_malformed sample_JSON_parse l) (deepseek_frames reads_with_malformed)
     = filter (\<lambda>l. \<not> deepseek_malformed sample_JSON_parse l)
         (deepseek_frames reads_without_malformed)"
  by code_simp

lemma sample_malformed_frame:
  "kimi_malformed sample_JSON_parse ''data: not-json''
   \<and> deepseek_malformed sample_JSON_parse ''data: not-json''
   \<and> kimi_frames reads_with_malformed ! 1 = ''data: not-json''
   \<and> deepseek_frames reads_with_malformed ! 1 = ''data: not-json''"
  by code_simp

lemma sample_kimi_stream:
  "map response_text
     (projr (KimiClient_generateContentStream sample_JSON_parse ''kimi-pro''
               (ok_response reads_without_malformed)))
   = [''He'', ''Hello'', ''Hello'']"
  by code_simp

lemma sample_deepseek_stream:
  "map (map candidate_parts \<circ> gemini_candidates)
     (projr (DeepSeekContentGenerator_generateContentStream sample_JSON_parse (\<lambda>s. None)
               ''deepseek-chat'' (ok_response reads_without_malformed)))
   = [[[text_part ''He'']], [[text_part ''llo'']]]"
  by code_simp

theorem malformed_frames_discarded_witness:
  "kimi_malformed sample_JSON_parse ''data: not-json''
   \<and> deepseek_malformed sample_JSON_parse ''data: not-json''
   \<and> kimi_frames reads_with_malformed ! 1 = ''data: not-json''
   \<and> deepseek_frames reads_with_malformed ! 1 = ''data: not-json''
   \<and> (\<exists>outs. KimiClient_generateContentStream sample_JSON_parse ''kimi-pro''
                 (ok_response reads_with_malformed) = Inr outs
             \<and> KimiClient_generateContentStream sample_JSON_parse ''kimi-pro''
                 (ok_response reads_without_malformed) = Inr outs
             \<and> map response_text outs = [''He'', ''Hello'', ''Hello''])
   \<and> (\<exists>outs. DeepSeekContentGenerator_generateContentStream sample_JSON_parse (\<lambda>s. None)
                 ''deepseek-chat'' (ok_response reads_with_malformed) = Inr outs
             \<and> DeepSeekContentGenerator_generateContentStream sample_JSON_parse (\<lambda>s. None)
                 ''deepseek-chat'' (ok_response reads_without_malformed) = Inr outs
             \<and> map (map candidate_parts \<circ> gemini_candidates) outs
                 = [[[text_part ''He'']], [[text_part ''llo'']]])"
proof -
  have h: "http_ok (ok_response reads_with_malformed)
      \<and> http_body (ok_response reads_with_malformed) = Some reads_with_malformed
      \<and> http_ok (ok_response reads_without_malformed)
      \<and> http_body (ok_response reads_without_malformed) = Some reads_without_malformed"
    by (simp add: ok_response_def)
  note t = malformed_frames_discarded [where response = "ok_response reads_with_malformed"
      and reads = reads_with_malformed and response' = "ok_response reads_without_malformed"
      and reads' = reads_without_malformed and parse_chunk = sample_JSON_parse
      and JSON_parse = "\<lambda>s. None"]
  from t [where model = "''kimi-pro''"] h sample_kimi_frames_agree
  obtain outs where k: "KimiClient_generateContentStream sample_JSON_parse ''kimi-pro''
                 (ok_response reads_with_malformed) = Inr outs"
             "KimiClient_generateContentStream sample_JSON_parse ''kimi-pro''
                 (ok_response reads_without_malformed) = Inr outs"
    by blast
  from k(2) sample_kimi_stream have kt: "map response_text outs = [''He'', ''Hello'', ''Hello'']"
    by simp
  from t [where model = "''deepseek-chat''"] h sample_deepseek_frames_agree
  obtain douts where d: "DeepSeekContentGenerator_generateContentStream sample_JSON_parse (\<lambda>s. None)
                 ''deepseek-chat'' (ok_response reads_with_malformed) = Inr douts"
             "DeepSeekContentGenerator_generateContentStream sample_JSON_parse (\<lambda>s. None)
                 ''deepseek-chat'' (ok_response reads_without_malformed) = Inr douts"
    by blast
  from d(2) sample_deepseek_stream
  have dt: "map (map candidate_parts \<circ> gemini_candidates) douts
                 = [[[text_part ''He'']], [[text_part ''llo'']]]"
    by simp
  from k kt have K: "\<exists>outs. KimiClient_generateContentStream sample_JSON_parse ''kimi-pro''
                 (ok_response reads_with_malformed) = Inr outs
             \<and> KimiClient_generateContentStream sample_JSON_parse ''kimi-pro''
                 (ok_response reads_without_malformed) = Inr outs
             \<and> map response_text outs = [''He'', ''Hello'', ''Hello'']"
    by (intro exI [of _ outs] conjI)
  from d dt have D: "\<exists>outs. DeepSeekContentGenerator_generateContentStream sample_JSON_parse
                 (\<lambda>s. None) ''deepseek-chat'' (ok_response reads_with_malformed) = Inr outs
             \<and> DeepSeekContentGenerator_generateContentStream sample_JSON_parse (\<lambda>s. None)
                 ''deepseek-chat'' (ok_response reads_without_malformed) = Inr outs
             \<and> map (map candidate_parts \<circ> gemini_candidates) outs
                 = [[[text_part ''He'']], [[text_part ''llo'']]]"
    by (intro exI [of _ douts] conjI)
  from sample_malformed_frame K D show ?thesis by (intro conjI) simp_all
qed

end
